theory Spec2Isabelle
  imports Main "HOL-Library.Word" "HOL-Library.Sublist" "HOL-Library.Multiset"
begin

section \<open>Go values and outcomes\<close>

text \<open>
  A shallow embedding of \<^verbatim>\<open>httpclient.go\<close> (package \<^verbatim>\<open>httpclient\<close>, version 0.3.0).

  Go's \<^verbatim>\<open>int\<close> is modelled as a 64-bit word (the size on 64-bit platforms): \<open>*\<close>
  wraps around and \<open>sint\<close> reads the value as two's complement, so every comparison of the
  source is written on \<open>sint\<close>. Option keys are small constants on which no arithmetic
  is done; they are plain integers.

  A Go map is a HOL map; a \<^verbatim>\<open>nil\<close> map is \<open>None\<close>, a map made by \<^verbatim>\<open>make\<close> is
  \<open>Some m\<close>. A parameter map (\<^verbatim>\<open>params\<close>) is given as the list of its entries in the
  order in which \<^verbatim>\<open>range\<close> visits them, because the source indexes every visited key
  and returns early: what happens depends on that order, which Go leaves unspecified.
\<close>

type_synonym goint = "64 word"

text \<open>An \<^verbatim>\<open>error\<close> value: made by \<^verbatim>\<open>fmt.Errorf\<close> (format and integer arguments), or
  handed back by a collaborator (\<^verbatim>\<open>net/url\<close>, \<^verbatim>\<open>net/http\<close>, \<^verbatim>\<open>os\<close>, ...).\<close>

datatype error = Errorf string "int list" | ExternalError string

text \<open>How a call ends: it returns, it dies in a run-time panic (an index out of range, an
  unlock of an unlocked mutex), or it blocks for ever on a mutex.\<close>

datatype 'a exec = Returns 'a | Panics string | Blocks

type_synonym http_Cookie = "string \<times> string"

datatype http_CookieJar = CookieJar nat

record http_Request =
  Method :: string
  URL :: string
  Body :: "string option"
  Header :: "string \<rightharpoonup> string"
  Cookies :: "http_Cookie list"

record http_Response =
  StatusCode :: nat
  Request :: http_Request

text \<open>The dynamic value of an option (\<^verbatim>\<open>interface{}\<close>), by its dynamic type. The two
  function types are the ones the source asserts: a redirect policy
  \<^verbatim>\<open>func(*http.Request, []*http.Request) error\<close> (\<open>None\<close> is the \<^verbatim>\<open>nil\<close> error) and a
  proxy selector \<^verbatim>\<open>func(*http.Request) (int, string, error)\<close>.\<close>

datatype val =
    VBool bool
  | VInt goint
  | VString string
  | VRedirectPolicy "http_Request \<Rightarrow> http_Request list \<Rightarrow> error option"
  | VProxyFunc "http_Request \<Rightarrow> goint \<times> string \<times> error option"
  | VCookieJar http_CookieJar
  | VOther

text \<open>\<^verbatim>\<open>http.Transport\<close> as the source configures it: the two variables the \<^verbatim>\<open>Dial\<close>
  closure captures, and the \<^verbatim>\<open>Proxy\<close> function (\<open>None\<close> when it is left \<^verbatim>\<open>nil\<close>).\<close>

record http_Transport =
  Dial_connectTimeoutMS :: goint
  Dial_timeoutMS :: goint
  Proxy :: "(http_Request \<Rightarrow> error + string) option"

record http_Client =
  Transport :: http_Transport
  CheckRedirect :: "http_Request \<Rightarrow> http_Request list \<Rightarrow> error option"
  Jar :: "http_CookieJar option"

datatype multipart_Part = FormFile string string string | FormField string string

text \<open>The collaborators the package calls and does not implement: the standard library's
  URL parser and query encoder, the HTTP engine, the cookie jar constructor, the file
  system and the multipart writer. \<open>map_range\<close> is the order in which the run time
  enumerates a header map.\<close>

record env =
  url_Parse :: "string \<Rightarrow> error + string"
  values_Encode :: "(string \<rightharpoonup> string list) \<Rightarrow> string"
  http_NewRequest :: "string \<Rightarrow> string \<Rightarrow> string option \<Rightarrow> error + http_Request"
  CanonicalHeaderKey :: "string \<Rightarrow> string"
  map_range :: "(string \<rightharpoonup> string) \<Rightarrow> (string \<times> string) list"
  client_Do :: "http_Client \<Rightarrow> http_Request \<Rightarrow> http_Response option \<times> error option"
  cookiejar_New :: "error + http_CookieJar"
  os_Open :: "string \<Rightarrow> error + string"
  io_Copy :: "string \<Rightarrow> error + string"
  filepath_Base :: "string \<Rightarrow> string"
  multipart_CreateFormFile :: "multipart_Part list \<Rightarrow> string \<Rightarrow> string \<Rightarrow> error option"
  multipart_Close :: "multipart_Part list \<Rightarrow> error option"
  multipart_FormDataContentType :: string
  multipart_Bytes :: "multipart_Part list \<Rightarrow> string"

section \<open>Constants\<close>

definition USERAGENT :: string where
  "USERAGENT = ''go-httpclient v'' @ ''0.3.0''"

definition PROXY_HTTP :: goint where "PROXY_HTTP = 0"

definition OPT_AUTOREFERER :: int where "OPT_AUTOREFERER = 58"
definition OPT_FOLLOWLOCATION :: int where "OPT_FOLLOWLOCATION = 52"
definition OPT_CONNECTTIMEOUT :: int where "OPT_CONNECTTIMEOUT = 78"
definition OPT_CONNECTTIMEOUT_MS :: int where "OPT_CONNECTTIMEOUT_MS = 156"
definition OPT_MAXREDIRS :: int where "OPT_MAXREDIRS = 68"
definition OPT_PROXYTYPE :: int where "OPT_PROXYTYPE = 101"
definition OPT_TIMEOUT :: int where "OPT_TIMEOUT = 13"
definition OPT_TIMEOUT_MS :: int where "OPT_TIMEOUT_MS = 155"
definition OPT_COOKIEJAR :: int where "OPT_COOKIEJAR = 10082"
definition OPT_INTERFACE :: int where "OPT_INTERFACE = 10062"
definition OPT_PROXY :: int where "OPT_PROXY = 10004"
definition OPT_REFERER :: int where "OPT_REFERER = 10016"
definition OPT_USERAGENT :: int where "OPT_USERAGENT = 10018"
definition OPT_REDIRECT_POLICY :: int where "OPT_REDIRECT_POLICY = 100000"
definition OPT_PROXY_FUNC :: int where "OPT_PROXY_FUNC = 100001"

definition defaultOptions :: "int \<rightharpoonup> val" where
  "defaultOptions =
     [OPT_FOLLOWLOCATION \<mapsto> VBool True,
      OPT_MAXREDIRS \<mapsto> VInt 10,
      OPT_AUTOREFERER \<mapsto> VBool True,
      OPT_USERAGENT \<mapsto> VString USERAGENT,
      OPT_COOKIEJAR \<mapsto> VBool True]"

text \<open>"following options will affect transport"\<close>

definition transportOptions :: "int list" where
  "transportOptions =
     [OPT_CONNECTTIMEOUT, OPT_CONNECTTIMEOUT_MS, OPT_PROXYTYPE, OPT_TIMEOUT,
      OPT_TIMEOUT_MS, OPT_INTERFACE, OPT_PROXY, OPT_PROXY_FUNC]"

text \<open>"following options will affect cookie jar"\<close>

definition jarOptions :: "int list" where
  "jarOptions = [OPT_COOKIEJAR]"

section \<open>Option and header merging\<close>

text \<open>The entries \<^verbatim>\<open>range m\<close> visits: none for a \<^verbatim>\<open>nil\<close> map.\<close>

definition entries :: "('k \<rightharpoonup> 'v) option \<Rightarrow> ('k \<rightharpoonup> 'v)" where
  "entries m = (case m of None \<Rightarrow> Map.empty | Some f \<Rightarrow> f)"

text \<open>\<^verbatim>\<open>mergeOptions\<close>, "latter ones has higher priority": the outer loop runs over the
  argument list from left to right; the inner loop \<^verbatim>\<open>for k, v := range m { rst[k] = v }\<close>
  stores every entry of \<open>m\<close> once, whatever the order, which is \<open>rst ++ m\<close>.\<close>

definition mergeOptions :: "(int \<rightharpoonup> val) option list \<Rightarrow> (int \<rightharpoonup> val)" where
  "mergeOptions options = foldl (\<lambda>rst m. rst ++ entries m) Map.empty options"

definition mergeHeaders :: "(string \<rightharpoonup> string) option list \<Rightarrow> (string \<rightharpoonup> string)" where
  "mergeHeaders headers = foldl (\<lambda>rst m. rst ++ entries m) Map.empty headers"

text \<open>\<^verbatim>\<open>hasOption\<close>, as written: the loop returns \<^verbatim>\<open>true\<close> at the first element that
  differs from \<open>opt\<close>.\<close>

fun hasOption :: "int \<Rightarrow> int list \<Rightarrow> bool" where
  "hasOption opt [] = False"
| "hasOption opt (v # options) = (if opt \<noteq> v then True else hasOption opt options)"

section \<open>Builders\<close>

text \<open>\<^verbatim>\<open>prepareTransport\<close>, in the source's order: the connect timeout (lines 131 to 143),
  the overall timeout (145 to 157), the fix of the connect timeout (160 to 162), then the
  proxy (187 to 232). Each part returns its error at once, as the source does.\<close>

definition prepareTransport_connectTimeoutMS :: "(int \<rightharpoonup> val) \<Rightarrow> error + goint" where
  "prepareTransport_connectTimeoutMS options =
     (case options OPT_CONNECTTIMEOUT_MS of
        Some connectTimeoutMS_ \<Rightarrow>
          (case connectTimeoutMS_ of
             VInt connectTimeoutMS \<Rightarrow> Inr connectTimeoutMS
           | _ \<Rightarrow> Inl (Errorf ''OPT_CONNECTTIMEOUT_MS must be int'' []))
      | None \<Rightarrow>
          (case options OPT_CONNECTTIMEOUT of
             Some connectTimeout_ \<Rightarrow>
               (case connectTimeout_ of
                  VInt connectTimeout \<Rightarrow> Inr (connectTimeout * 1000)
                | _ \<Rightarrow> Inl (Errorf ''OPT_CONNECTTIMEOUT must be int'' []))
           | None \<Rightarrow> Inr 0))"

definition prepareTransport_timeoutMS :: "(int \<rightharpoonup> val) \<Rightarrow> error + goint" where
  "prepareTransport_timeoutMS options =
     (case options OPT_TIMEOUT_MS of
        Some timeoutMS_ \<Rightarrow>
          (case timeoutMS_ of
             VInt timeoutMS \<Rightarrow> Inr timeoutMS
           | _ \<Rightarrow> Inl (Errorf ''OPT_TIMEOUT_MS must be int'' []))
      | None \<Rightarrow>
          (case options OPT_TIMEOUT of
             Some timeout_ \<Rightarrow>
               (case timeout_ of
                  VInt timeout \<Rightarrow> Inr (timeout * 1000)
                | _ \<Rightarrow> Inl (Errorf ''OPT_TIMEOUT must be int'' []))
           | None \<Rightarrow> Inr 0))"

definition prepareTransport_proxy ::
  "env \<Rightarrow> (int \<rightharpoonup> val) \<Rightarrow> error + (http_Request \<Rightarrow> error + string) option" where
  "prepareTransport_proxy e options =
     (case options OPT_PROXY_FUNC of
        Some proxyFunc_ \<Rightarrow>
          (case proxyFunc_ of
             VProxyFunc proxyFunc \<Rightarrow>
               Inr (Some (\<lambda>req.
                 (case proxyFunc req of
                    (proxyType, u_, Some err) \<Rightarrow> Inl err
                  | (proxyType, u_, None) \<Rightarrow>
                      if proxyType \<noteq> PROXY_HTTP
                      then Inl (Errorf ''only PROXY_HTTP is currently supported'' [])
                      else url_Parse e (''http://'' @ u_))))
           | _ \<Rightarrow> Inl (Errorf ''OPT_PROXY_FUNC is not a desired function'' []))
      | None \<Rightarrow>
          (case (case options OPT_PROXYTYPE of
                   Some proxytype_ \<Rightarrow>
                     (case proxytype_ of
                        VInt proxytype \<Rightarrow>
                          if proxytype \<noteq> PROXY_HTTP
                          then Some (Errorf
                            ''OPT_PROXYTYPE must be int, and only PROXY_HTTP is currently supported'' [])
                          else None
                      | _ \<Rightarrow>
                          Some (Errorf
                            ''OPT_PROXYTYPE must be int, and only PROXY_HTTP is currently supported'' []))
                 | None \<Rightarrow> None) of
             Some err \<Rightarrow> Inl err
           | None \<Rightarrow>
               (case options OPT_PROXY of
                  Some proxy_ \<Rightarrow>
                    (case proxy_ of
                       VString proxy \<Rightarrow>
                         (case url_Parse e (''http://'' @ proxy) of
                            Inl err \<Rightarrow> Inl err
                          | Inr proxyUrl \<Rightarrow> Inr (Some (\<lambda>req. Inr proxyUrl)))
                     | _ \<Rightarrow> Inl (Errorf ''OPT_PROXY must be string'' []))
                | None \<Rightarrow> Inr None)))"

definition prepareTransport :: "env \<Rightarrow> (int \<rightharpoonup> val) \<Rightarrow> error + http_Transport" where
  "prepareTransport e options =
     (case prepareTransport_connectTimeoutMS options of
        Inl err \<Rightarrow> Inl err
      | Inr connectTimeoutMS \<Rightarrow>
          (case prepareTransport_timeoutMS options of
             Inl err \<Rightarrow> Inl err
           | Inr timeoutMS \<Rightarrow>
               (let connectTimeoutMS' =
                      (if 0 < sint timeoutMS \<and>
                          (sint timeoutMS < sint connectTimeoutMS \<or> connectTimeoutMS = 0)
                       then timeoutMS else connectTimeoutMS)
                in case prepareTransport_proxy e options of
                     Inl err \<Rightarrow> Inl err
                   | Inr proxy \<Rightarrow>
                       Inr \<lparr>Dial_connectTimeoutMS = connectTimeoutMS',
                            Dial_timeoutMS = timeoutMS,
                            Proxy = proxy\<rparr>)))"

text \<open>What the \<^verbatim>\<open>Dial\<close> closure does with the connect timeout it captured:
  \<^verbatim>\<open>net.DialTimeout\<close> with that many milliseconds when it is positive (\<open>Some\<close>),
  \<^verbatim>\<open>net.Dial\<close> otherwise (\<open>None\<close>).\<close>

definition Dial_timeout :: "http_Transport \<Rightarrow> goint option" where
  "Dial_timeout t =
     (if 0 < sint (Dial_connectTimeoutMS t) then Some (Dial_connectTimeoutMS t) else None)"

text \<open>\<^verbatim>\<open>prepareRedirect\<close>. Without a custom policy the two variables start at their zero
  values (\<^verbatim>\<open>false\<close>, 0) and the closure captures them.\<close>

definition prepareRedirect ::
  "(int \<rightharpoonup> val) \<Rightarrow> error + (http_Request \<Rightarrow> http_Request list \<Rightarrow> error option)" where
  "prepareRedirect options =
     (case options OPT_REDIRECT_POLICY of
        Some redirectPolicy_ \<Rightarrow>
          (case redirectPolicy_ of
             VRedirectPolicy redirectPolicy \<Rightarrow> Inr redirectPolicy
           | _ \<Rightarrow> Inl (Errorf ''OPT_REDIRECT_POLICY is not a desired function'' []))
      | None \<Rightarrow>
          (case (case options OPT_FOLLOWLOCATION of
                   Some followlocation_ \<Rightarrow>
                     (case followlocation_ of
                        VBool followlocation \<Rightarrow> Inr followlocation
                      | _ \<Rightarrow> Inl (Errorf ''OPT_FOLLOWLOCATION must be bool'' []))
                 | None \<Rightarrow> Inr False) of
             Inl err \<Rightarrow> Inl err
           | Inr followlocation \<Rightarrow>
               (case (case options OPT_MAXREDIRS of
                        Some maxredirs_ \<Rightarrow>
                          (case maxredirs_ of
                             VInt maxredirs \<Rightarrow> Inr maxredirs
                           | _ \<Rightarrow> Inl (Errorf ''OPT_MAXREDIRS must be int'' []))
                      | None \<Rightarrow> Inr 0) of
                  Inl err \<Rightarrow> Inl err
                | Inr maxredirs \<Rightarrow>
                    Inr (\<lambda>req via.
                      if \<not> followlocation \<or> sint maxredirs \<le> 0
                      then Some (Errorf ''redirect not allowed'' [])
                      else if sint maxredirs \<le> int (length via)
                      then Some (Errorf ''stopped after %d redirects'' [int (length via)])
                      else None))))"

definition prepareJar :: "env \<Rightarrow> (int \<rightharpoonup> val) \<Rightarrow> error + http_CookieJar option" where
  "prepareJar e options =
     (case options OPT_COOKIEJAR of
        Some optCookieJar_ \<Rightarrow>
          (case optCookieJar_ of
             VBool optCookieJar \<Rightarrow>
               if optCookieJar
               then (case cookiejar_New e of Inl err \<Rightarrow> Inl err | Inr jar \<Rightarrow> Inr (Some jar))
               else Inr None
           | VCookieJar optCookieJar \<Rightarrow> Inr (Some optCookieJar)
           | _ \<Rightarrow> Inl (Errorf ''invalid cookiejar'' []))
      | None \<Rightarrow> Inr None)"

text \<open>\<^verbatim>\<open>prepareRequest\<close>: \<^verbatim>\<open>req.Header.Set\<close> stores under the canonical form of the key.\<close>

definition Header_Set :: "env \<Rightarrow> string \<Rightarrow> string \<Rightarrow> http_Request \<Rightarrow> http_Request" where
  "Header_Set e k v req = req\<lparr>Header := (Header req)(CanonicalHeaderKey e k \<mapsto> v)\<rparr>"

definition prepareRequest ::
  "env \<Rightarrow> string \<Rightarrow> string \<Rightarrow> (string \<rightharpoonup> string) \<Rightarrow> string option \<Rightarrow> (int \<rightharpoonup> val)
     \<Rightarrow> error + http_Request" where
  "prepareRequest e method url' headers body options =
     (case http_NewRequest e method url' body of
        Inl err \<Rightarrow> Inl err
      | Inr req \<Rightarrow>
          (let req1 = (case options OPT_REFERER of
                         Some (VString refererStr) \<Rightarrow> Header_Set e ''Referer'' refererStr req
                       | _ \<Rightarrow> req);
               req2 = (case options OPT_USERAGENT of
                         Some (VString useragentStr) \<Rightarrow>
                           Header_Set e ''User-Agent'' useragentStr req1
                       | _ \<Rightarrow> req1)
           in Inr (foldl (\<lambda>r (k, v). Header_Set e k v r) req2 (map_range e headers))))"

section \<open>The client session\<close>

datatype mutex = Unlocked | Locked

text \<open>The persistent header map is the one map of the session that the code reaches through
  a second name (\<^verbatim>\<open>headers := this.Headers\<close> in \<^verbatim>\<open>Post\<close>) and then writes to. Header
  maps that are written through such a name live in a store, a list indexed by address, and
  the field holds the address. The other maps are reached only through their field and are
  held by value.\<close>

type_synonym addr = nat
type_synonym store = "(string \<rightharpoonup> string) list"

record HttpClient =
  Options :: "(int \<rightharpoonup> val) option"
  Headers :: "addr option"
  oneTimeOptions :: "(int \<rightharpoonup> val) option"
  oneTimeHeaders :: "(string \<rightharpoonup> string) option"
  oneTimeCookies :: "http_Cookie list"
  transport :: "http_Transport option"
  jar :: "http_CookieJar option"
  reuseTransport :: bool
  reuseJar :: bool
  lock :: "mutex option"

definition NewHttpClient :: "store \<Rightarrow> (int \<rightharpoonup> val) option \<Rightarrow> store \<times> HttpClient" where
  "NewHttpClient st options =
     (st @ [Map.empty],
      \<lparr>Options = options,
       Headers = Some (length st),
       oneTimeOptions = None,
       oneTimeHeaders = None,
       oneTimeCookies = [],
       transport = None,
       jar = None,
       reuseTransport = True,
       reuseJar = True,
       lock = None\<rparr>)"

text \<open>\<^verbatim>\<open>Begin\<close>: \<^verbatim>\<open>Lock\<close> on a mutex that is held does not return.\<close>

definition Begin :: "HttpClient \<Rightarrow> HttpClient exec" where
  "Begin this =
     (case lock this of
        None \<Rightarrow> Returns (this\<lparr>lock := Some Locked\<rparr>)
      | Some Unlocked \<Rightarrow> Returns (this\<lparr>lock := Some Locked\<rparr>)
      | Some Locked \<Rightarrow> Blocks)"

text \<open>\<^verbatim>\<open>reset\<close>: the five assignments, then \<^verbatim>\<open>Unlock\<close> when there is a mutex. The run time
  ends the program when \<^verbatim>\<open>Unlock\<close> finds the mutex not held. The session is returned as
  the assignments left it, however the call ends.\<close>

definition reset :: "HttpClient \<Rightarrow> HttpClient \<times> unit exec" where
  "reset this =
     (let this' = this\<lparr>oneTimeOptions := None,
                      oneTimeHeaders := None,
                      oneTimeCookies := [],
                      reuseTransport := True,
                      reuseJar := True\<rparr>
      in case lock this' of
           None \<Rightarrow> (this', Returns ())
         | Some Locked \<Rightarrow> (this'\<lparr>lock := Some Unlocked\<rparr>, Returns ())
         | Some Unlocked \<Rightarrow> (this', Panics ''sync: unlock of unlocked mutex''))"

definition WithOption :: "int \<Rightarrow> val \<Rightarrow> HttpClient \<Rightarrow> HttpClient" where
  "WithOption k v this =
     (let this1 = this\<lparr>oneTimeOptions := Some ((entries (oneTimeOptions this))(k \<mapsto> v))\<rparr>;
          this2 = (if \<not> hasOption k transportOptions
                   then this1\<lparr>reuseTransport := False\<rparr> else this1);
          this3 = (if \<not> hasOption k jarOptions
                   then this2\<lparr>reuseJar := False\<rparr> else this2)
      in this3)"

definition WithHeader :: "string \<Rightarrow> string \<Rightarrow> HttpClient \<Rightarrow> HttpClient" where
  "WithHeader k v this =
     this\<lparr>oneTimeHeaders := Some ((entries (oneTimeHeaders this))(k \<mapsto> v))\<rparr>"

definition WithCookie :: "http_Cookie \<Rightarrow> HttpClient \<Rightarrow> HttpClient" where
  "WithCookie cookie this = this\<lparr>oneTimeCookies := oneTimeCookies this @ [cookie]\<rparr>"

subsection \<open>Do\<close>

text \<open>Lines 397 to 399 of \<^verbatim>\<open>Do\<close>: the resolved request, that is the merged options, the
  merged headers and the staged cookies.\<close>

record resolved =
  r_options :: "int \<rightharpoonup> val"
  r_headers :: "string \<rightharpoonup> string"
  r_cookies :: "http_Cookie list"

definition Do_resolve :: "HttpClient \<Rightarrow> (string \<rightharpoonup> string) option \<Rightarrow> resolved" where
  "Do_resolve this headers =
     \<lparr>r_options = mergeOptions [Some defaultOptions, Options this, oneTimeOptions this],
      r_headers = mergeHeaders [oneTimeHeaders this, headers],
      r_cookies = oneTimeCookies this\<rparr>"

text \<open>Lines 406 to 418: the transport of this call, and the session with its cache.\<close>

definition Do_transport ::
  "env \<Rightarrow> HttpClient \<Rightarrow> (int \<rightharpoonup> val) \<Rightarrow> error + (http_Transport \<times> HttpClient)" where
  "Do_transport e this options =
     (if transport this = None \<or> \<not> reuseTransport this
      then (case prepareTransport e options of
              Inl err \<Rightarrow> Inl err
            | Inr transport' \<Rightarrow>
                Inr (transport',
                     if reuseTransport this then this\<lparr>transport := Some transport'\<rparr> else this))
      else Inr (the (transport this), this))"

text \<open>Lines 421 to 433: the same for the cookie jar, where the builder may hand back
  \<^verbatim>\<open>nil\<close>.\<close>

definition Do_jar ::
  "env \<Rightarrow> HttpClient \<Rightarrow> (int \<rightharpoonup> val) \<Rightarrow> error + (http_CookieJar option \<times> HttpClient)" where
  "Do_jar e this options =
     (if jar this = None \<or> \<not> reuseJar this
      then (case prepareJar e options of
              Inl err \<Rightarrow> Inl err
            | Inr jar' \<Rightarrow> Inr (jar', if reuseJar this then this\<lparr>jar := jar'\<rparr> else this))
      else Inr (jar this, this))"

text \<open>What \<^verbatim>\<open>Do\<close> does once \<^verbatim>\<open>reset\<close> has returned (lines 438 to 458).\<close>

definition Do_send ::
  "env \<Rightarrow> resolved \<Rightarrow> http_Transport \<Rightarrow> http_CookieJar option \<Rightarrow> string \<Rightarrow> string
     \<Rightarrow> string option \<Rightarrow> http_Response option \<times> error option" where
  "Do_send e r transport' jar' method url' body =
     (case prepareRedirect (r_options r) of
        Inl err \<Rightarrow> (None, Some err)
      | Inr redirect \<Rightarrow>
          (let c = \<lparr>Transport = transport', CheckRedirect = redirect, Jar = jar'\<rparr>
           in case prepareRequest e method url' (r_headers r) body (r_options r) of
                Inl err \<Rightarrow> (None, Some err)
              | Inr req \<Rightarrow>
                  client_Do e c (req\<lparr>Cookies := Cookies req @ r_cookies r\<rparr>)))"

text \<open>\<^verbatim>\<open>Do\<close>. The result is the session as the call leaves it, and how the call ends: with
  the pair it returns, or in the panic of \<^verbatim>\<open>reset\<close>.\<close>

definition after_reset ::
  "HttpClient \<times> unit exec \<Rightarrow> 'a \<Rightarrow> HttpClient \<times> 'a exec" where
  "after_reset r x =
     (case r of
        (this', Returns u) \<Rightarrow> (this', Returns x)
      | (this', Panics msg) \<Rightarrow> (this', Panics msg)
      | (this', Blocks) \<Rightarrow> (this', Blocks))"

definition Do ::
  "env \<Rightarrow> HttpClient \<Rightarrow> string \<Rightarrow> string \<Rightarrow> (string \<rightharpoonup> string) option \<Rightarrow> string option
     \<Rightarrow> HttpClient \<times> (http_Response option \<times> error option) exec" where
  "Do e this method url' headers body =
     (let r = Do_resolve this headers
      in case Do_transport e this (r_options r) of
           Inl err \<Rightarrow> after_reset (reset this) (None, Some err)
         | Inr (transport', this1) \<Rightarrow>
             (case Do_jar e this1 (r_options r) of
                Inl err \<Rightarrow> after_reset (reset this1) (None, Some err)
              | Inr (jar', this2) \<Rightarrow>
                  after_reset (reset this2) (Do_send e r transport' jar' method url' body)))"

section \<open>Request helpers\<close>

text \<open>\<^verbatim>\<open>paramsToString\<close>: \<^verbatim>\<open>values.Set(k, v)\<close> for every entry, then the library's
  \<^verbatim>\<open>Encode\<close>.\<close>

definition paramsToString :: "env \<Rightarrow> (string \<times> string) list \<Rightarrow> string" where
  "paramsToString e params =
     values_Encode e (foldl (\<lambda>values (k, v). values(k \<mapsto> [v])) Map.empty params)"

definition addParams :: "env \<Rightarrow> string \<Rightarrow> (string \<times> string) list \<Rightarrow> string" where
  "addParams e url' params =
     (if length params = 0 then url'
      else
        (let url1 = (if \<not> CHR ''?'' \<in> set url' then url' @ ''?'' else url')
         in if suffix ''?'' url1 \<or> suffix ''&'' url1
            then url1 @ paramsToString e params
            else url1 @ ''&'' @ paramsToString e params))"

text \<open>\<^verbatim>\<open>checkParamFile\<close>: \<^verbatim>\<open>k[0]\<close> on an empty key is an index out of range.\<close>

fun checkParamFile :: "(string \<times> string) list \<Rightarrow> bool exec" where
  "checkParamFile [] = Returns False"
| "checkParamFile ((k, v) # params) =
     (case k of
        [] \<Rightarrow> Panics ''index out of range''
      | c # cs \<Rightarrow> if c = CHR ''@'' then Returns True else checkParamFile params)"

definition addFormFile ::
  "env \<Rightarrow> multipart_Part list \<Rightarrow> string \<Rightarrow> string \<Rightarrow> error + multipart_Part list" where
  "addFormFile e writer name path =
     (case os_Open e path of
        Inl err \<Rightarrow> Inl err
      | Inr file \<Rightarrow>
          (case multipart_CreateFormFile e writer name (filepath_Base e path) of
             Some err \<Rightarrow> Inl err
           | None \<Rightarrow>
               (case io_Copy e file of
                  Inl err \<Rightarrow> Inl err
                | Inr content \<Rightarrow> Inr (writer @ [FormFile name (filepath_Base e path) content]))))"

text \<open>The loop of \<^verbatim>\<open>PostMultipart\<close> (lines 494 to 504) over the entries in the order of the
  iteration: the writer when the loop ends, the error of the early return, or the panic
  of \<^verbatim>\<open>k[0]\<close>.\<close>

fun PostMultipart_files ::
  "env \<Rightarrow> multipart_Part list \<Rightarrow> (string \<times> string) list \<Rightarrow> (error + multipart_Part list) exec" where
  "PostMultipart_files e writer [] = Returns (Inr writer)"
| "PostMultipart_files e writer ((k, v) # params) =
     (case k of
        [] \<Rightarrow> Panics ''index out of range''
      | c # cs \<Rightarrow>
          if c = CHR ''@''
          then (case addFormFile e writer cs v of
                  Inl err \<Rightarrow> Returns (Inl err)
                | Inr writer' \<Rightarrow> PostMultipart_files e writer' params)
          else PostMultipart_files e (writer @ [FormField k v]) params)"

type_synonym call_result = "(http_Response option \<times> error option) exec"

definition PostMultipart ::
  "env \<Rightarrow> store \<Rightarrow> HttpClient \<Rightarrow> string \<Rightarrow> (string \<times> string) list
     \<Rightarrow> store \<times> HttpClient \<times> call_result" where
  "PostMultipart e st this url' params =
     (case PostMultipart_files e [] params of
        Panics msg \<Rightarrow> (st, this, Panics msg)
      | Blocks \<Rightarrow> (st, this, Blocks)
      | Returns (Inl err) \<Rightarrow> (st, this, Returns (None, Some err))
      | Returns (Inr writer) \<Rightarrow>
          (let headers = [''Content-Type'' \<mapsto> multipart_FormDataContentType e]
           in case multipart_Close e writer of
                Some err \<Rightarrow> (st, this, Returns (None, Some err))
              | None \<Rightarrow>
                  (case Do e this ''POST'' url' (Some headers) (Some (multipart_Bytes e writer)) of
                     (this', res) \<Rightarrow> (st, this', res))))"

text \<open>\<^verbatim>\<open>Post\<close>. \<^verbatim>\<open>headers := this.Headers\<close> copies the address; a \<^verbatim>\<open>nil\<close> one is replaced by
  a fresh map; the assignment writes to the map at that address. The loop of
  \<^verbatim>\<open>checkParamFile\<close> and, after it, the loop of \<^verbatim>\<open>PostMultipart\<close> are given the entries in
  the same order, where the run time is free to pick two.\<close>

definition Post ::
  "env \<Rightarrow> store \<Rightarrow> HttpClient \<Rightarrow> string \<Rightarrow> (string \<times> string) list
     \<Rightarrow> store \<times> HttpClient \<times> call_result" where
  "Post e st this url' params =
     (case checkParamFile params of
        Panics msg \<Rightarrow> (st, this, Panics msg)
      | Blocks \<Rightarrow> (st, this, Blocks)
      | Returns True \<Rightarrow> PostMultipart e st this url' params
      | Returns False \<Rightarrow>
          (let (headers, st1) = (case Headers this of
                                   None \<Rightarrow> (length st, st @ [Map.empty])
                                 | Some a \<Rightarrow> (a, st));
               st2 = st1[headers :=
                      (st1 ! headers)(''Content-Type'' \<mapsto> ''application/x-www-form-urlencoded'')];
               body = paramsToString e params
           in case Do e this ''POST'' url' (Some (st2 ! headers)) (Some body) of
                (this', res) \<Rightarrow> (st2, this', res)))"

definition Get ::
  "env \<Rightarrow> HttpClient \<Rightarrow> string \<Rightarrow> (string \<times> string) list \<Rightarrow> HttpClient \<times> call_result" where
  "Get e this url' params = Do e this ''GET'' (addParams e url' params) None None"

section \<open>Test doubles\<close>

text \<open>Collaborators and a session for the concrete runs below: a URL parser that accepts
  every string, an encoder that knows the one parameter \<open>b\<close>, a request constructor that
  never fails, an engine that answers 200 and echoes the request, a file system whose
  files are empty.\<close>

definition test_env :: env where
  "test_env =
     \<lparr>url_Parse = (\<lambda>s. Inr s),
      values_Encode = (\<lambda>values. case values ''b'' of Some [v] \<Rightarrow> ''b='' @ v | _ \<Rightarrow> []),
      http_NewRequest =
        (\<lambda>method url' body.
           Inr \<lparr>Method = method, URL = url', Body = body, Header = Map.empty, Cookies = []\<rparr>),
      CanonicalHeaderKey = (\<lambda>k. k),
      map_range =
        (\<lambda>m. concat (map (\<lambda>k. case m k of Some v \<Rightarrow> [(k, v)] | None \<Rightarrow> [])
                         [''Content-Type'', ''X-Env''])),
      client_Do = (\<lambda>c req. (Some \<lparr>StatusCode = 200, Request = req\<rparr>, None)),
      cookiejar_New = Inr (CookieJar 0),
      os_Open = (\<lambda>path. Inr path),
      io_Copy = (\<lambda>file. Inr []),
      filepath_Base = (\<lambda>path. path),
      multipart_CreateFormFile = (\<lambda>writer name filename. None),
      multipart_Close = (\<lambda>writer. None),
      multipart_FormDataContentType = ''multipart/form-data; boundary=b'',
      multipart_Bytes = (\<lambda>writer. [])\<rparr>"

definition test_transport :: http_Transport where
  "test_transport = \<lparr>Dial_connectTimeoutMS = 0, Dial_timeoutMS = 0, Proxy = None\<rparr>"

text \<open>A session whose transport is cached and whose persistent header map is at address
  0.\<close>

definition test_session :: HttpClient where
  "test_session =
     \<lparr>Options = None,
      Headers = Some 0,
      oneTimeOptions = None,
      oneTimeHeaders = None,
      oneTimeCookies = [],
      transport = Some test_transport,
      jar = None,
      reuseTransport = True,
      reuseJar = True,
      lock = None\<rparr>"

definition test_request :: http_Request where
  "test_request =
     \<lparr>Method = ''GET'', URL = ''http://x/y'', Body = None, Header = Map.empty, Cookies = []\<rparr>"

text \<open>The store of \<open>test_session\<close>: its persistent header map holds one header.\<close>

definition test_store :: store where
  "test_store = [[''X-Env'' \<mapsto> ''persistent'']]"

text \<open>A new session on which \<^verbatim>\<open>Begin\<close> has taken the mutex and \<^verbatim>\<open>WithOption\<close> has staged
  an overall timeout that is not an integer.\<close>

definition test_locked_session :: HttpClient where
  "test_locked_session =
     (case Begin (snd (NewHttpClient [] None)) of
        Returns this \<Rightarrow> WithOption OPT_TIMEOUT (VString ''soon'') this
      | _ \<Rightarrow> snd (NewHttpClient [] None))"

text \<open>The collaborators again, with a header type that stores \<open>content-type\<close> under
  \<open>Content-Type\<close>, as \<^verbatim>\<open>http.Header\<close> does, and an enumeration of a header map that
  visits \<open>Content-Type\<close> before \<open>content-type\<close>.\<close>

definition test_canonical_env :: env where
  "test_canonical_env =
     test_env
       \<lparr>CanonicalHeaderKey := (\<lambda>k. if k = ''content-type'' then ''Content-Type'' else k),
        map_range :=
          (\<lambda>m. concat (map (\<lambda>k. case m k of Some v \<Rightarrow> [(k, v)] | None \<Rightarrow> [])
                           [''Content-Type'', ''content-type'']))\<rparr>"

section \<open>Classification of options and reuse of the transport\<close>

lemmas OPT_defs =
  OPT_AUTOREFERER_def OPT_FOLLOWLOCATION_def OPT_CONNECTTIMEOUT_def OPT_CONNECTTIMEOUT_MS_def
  OPT_MAXREDIRS_def OPT_PROXYTYPE_def OPT_TIMEOUT_def OPT_TIMEOUT_MS_def OPT_COOKIEJAR_def
  OPT_INTERFACE_def OPT_PROXY_def OPT_REFERER_def OPT_USERAGENT_def OPT_REDIRECT_POLICY_def
  OPT_PROXY_FUNC_def

text \<open>\<^verbatim>\<open>hasOption\<close> answers whether the list holds an element other than \<open>opt\<close>. The
  transport list has eight distinct elements, so the answer is yes for every key; the jar
  list has one, so the answer is yes for every key but that one.\<close>

lemma hasOption_iff: "hasOption opt options \<longleftrightarrow> (\<exists>v\<in>set options. v \<noteq> opt)"
  by (induction options) auto

lemma hasOption_transportOptions: "hasOption k transportOptions"
  by (simp add: transportOptions_def OPT_defs)

lemma hasOption_jarOptions: "hasOption k jarOptions \<longleftrightarrow> k \<noteq> OPT_COOKIEJAR"
  by (simp add: jarOptions_def)

lemma reuseTransport_WithOption: "reuseTransport (WithOption k v this) = reuseTransport this"
  by (simp add: WithOption_def Let_def hasOption_transportOptions)

lemma reuseJar_WithOption:
  "reuseJar (WithOption k v this) = (if k = OPT_COOKIEJAR then False else reuseJar this)"
  by (simp add: WithOption_def Let_def hasOption_jarOptions)

lemma transport_WithOption: "transport (WithOption k v this) = transport this"
  by (simp add: WithOption_def Let_def)

lemma oneTimeOptions_WithOption:
  "oneTimeOptions (WithOption k v this) = Some ((entries (oneTimeOptions this))(k \<mapsto> v))"
  by (simp add: WithOption_def Let_def)

lemma Options_WithOption: "Options (WithOption k v this) = Options this"
  by (simp add: WithOption_def Let_def)

text \<open>
  C1. The claim: on a session with a cached transport, \<^verbatim>\<open>WithOption\<close> with a key of the
  transport list forces the next \<^verbatim>\<open>Do\<close> to build a new transport, and with any other key
  it does not. The code does the second for every key, the keys of the transport list
  included: \<^verbatim>\<open>WithOption\<close> never clears \<^verbatim>\<open>reuseTransport\<close>, so the transport step of
  the next \<^verbatim>\<open>Do\<close> hands back the cached transport and leaves the session as it was,
  whatever the key and the value. The run below stages \<^verbatim>\<open>OPT_TIMEOUT\<close> = 5: the call gets
  the cached transport, whose deadline is 0, where the builder would have configured 5000
  milliseconds.
\<close>

theorem C1_transport_option_keeps_cached_transport:
  assumes "transport this = Some cached" and "reuseTransport this"
  shows "reuseTransport (WithOption k v this) \<and>
         Do_transport e (WithOption k v this) options = Inr (cached, WithOption k v this)"
proof
  show "reuseTransport (WithOption k v this)"
    using assms(2) by (simp add: reuseTransport_WithOption)
  then show "Do_transport e (WithOption k v this) options = Inr (cached, WithOption k v this)"
    using assms(1) by (simp add: Do_transport_def transport_WithOption)
qed

theorem C1_transport_option_keeps_cached_transport_witness:
  "OPT_TIMEOUT \<in> set transportOptions \<and>
   transport test_session = Some test_transport \<and> reuseTransport test_session \<and>
   Do_transport test_env (WithOption OPT_TIMEOUT (VInt 5) test_session)
       (r_options (Do_resolve (WithOption OPT_TIMEOUT (VInt 5) test_session) None))
     = Inr (test_transport, WithOption OPT_TIMEOUT (VInt 5) test_session) \<and>
   Dial_timeoutMS test_transport = 0 \<and>
   map_sum id Dial_timeoutMS (prepareTransport test_env
       (r_options (Do_resolve (WithOption OPT_TIMEOUT (VInt 5) test_session) None)))
     = Inr 5000"
proof -
  have cached: "transport test_session = Some test_transport"
    and reuse: "reuseTransport test_session"
    by (simp_all add: test_session_def)
  have built: "map_sum id Dial_timeoutMS (prepareTransport test_env
       (r_options (Do_resolve (WithOption OPT_TIMEOUT (VInt 5) test_session) None)))
     = Inr 5000"
    by (simp add: prepareTransport_def prepareTransport_connectTimeoutMS_def
        prepareTransport_timeoutMS_def prepareTransport_proxy_def
        Do_resolve_def mergeOptions_def oneTimeOptions_WithOption Options_WithOption entries_def
        map_add_def defaultOptions_def OPT_defs test_session_def test_env_def)
  show ?thesis
    using C1_transport_option_keeps_cached_transport [OF cached reuse] cached reuse built
    by (simp add: transportOptions_def test_transport_def)
qed

section \<open>Resolution of options and headers\<close>

lemma defaultOptions_lookups:
  "defaultOptions OPT_REDIRECT_POLICY = None"
  "defaultOptions OPT_FOLLOWLOCATION = Some (VBool True)"
  "defaultOptions OPT_MAXREDIRS = Some (VInt 10)"
  "defaultOptions OPT_COOKIEJAR = Some (VBool True)"
  "defaultOptions OPT_USERAGENT = Some (VString USERAGENT)"
  "defaultOptions OPT_REFERER = None"
  "defaultOptions OPT_CONNECTTIMEOUT = None"
  "defaultOptions OPT_CONNECTTIMEOUT_MS = None"
  "defaultOptions OPT_TIMEOUT = None"
  "defaultOptions OPT_TIMEOUT_MS = None"
  "defaultOptions OPT_PROXY = None"
  "defaultOptions OPT_PROXYTYPE = None"
  "defaultOptions OPT_PROXY_FUNC = None"
  by (simp_all add: defaultOptions_def OPT_defs)

lemma mergeOptions3: "mergeOptions [D, P, T] = entries D ++ entries P ++ entries T"
  by (simp add: mergeOptions_def)

lemma mergeHeaders2: "mergeHeaders [A, B] = entries A ++ entries B"
  by (simp add: mergeHeaders_def)

text \<open>
  C2. For all option layers \<open>D\<close> (default), \<open>P\<close> (persistent) and \<open>T\<close> (one-time), each a
  map or \<^verbatim>\<open>nil\<close>, and every key \<open>k\<close>: the merged map holds the one-time value when that
  layer has \<open>k\<close>, else the persistent value when that layer has \<open>k\<close>, else the default
  value, and nothing when no layer has \<open>k\<close>. The option map of \<^verbatim>\<open>Do\<close> is this merge of
  \<^verbatim>\<open>defaultOptions\<close>, \<^verbatim>\<open>this.Options\<close> and \<^verbatim>\<open>this.oneTimeOptions\<close>.
\<close>

theorem C2_mergeOptions_precedence:
  "(entries T k = Some v \<longrightarrow> mergeOptions [D, P, T] k = Some v) \<and>
   (entries T k = None \<and> entries P k = Some v \<longrightarrow> mergeOptions [D, P, T] k = Some v) \<and>
   (entries T k = None \<and> entries P k = None \<and> entries D k = Some v
      \<longrightarrow> mergeOptions [D, P, T] k = Some v) \<and>
   (entries T k = None \<and> entries P k = None \<and> entries D k = None
      \<longrightarrow> mergeOptions [D, P, T] k = None) \<and>
   r_options (Do_resolve this headers) =
     mergeOptions [Some defaultOptions, Options this, oneTimeOptions this]"
  by (simp add: mergeOptions3 map_add_def Do_resolve_def)

theorem C2_mergeOptions_precedence_witness:
  "mergeOptions [Some defaultOptions,
                 Some [OPT_MAXREDIRS \<mapsto> VInt 3, OPT_TIMEOUT \<mapsto> VInt 7],
                 Some [OPT_MAXREDIRS \<mapsto> VInt 1]] OPT_MAXREDIRS = Some (VInt 1) \<and>
   mergeOptions [Some defaultOptions,
                 Some [OPT_MAXREDIRS \<mapsto> VInt 3, OPT_TIMEOUT \<mapsto> VInt 7],
                 Some [OPT_MAXREDIRS \<mapsto> VInt 1]] OPT_TIMEOUT = Some (VInt 7) \<and>
   mergeOptions [Some defaultOptions,
                 Some [OPT_MAXREDIRS \<mapsto> VInt 3, OPT_TIMEOUT \<mapsto> VInt 7],
                 Some [OPT_MAXREDIRS \<mapsto> VInt 1]] OPT_FOLLOWLOCATION = Some (VBool True) \<and>
   mergeOptions [Some defaultOptions,
                 Some [OPT_MAXREDIRS \<mapsto> VInt 3, OPT_TIMEOUT \<mapsto> VInt 7],
                 Some [OPT_MAXREDIRS \<mapsto> VInt 1]] OPT_PROXY = None"
proof -
  let ?D = "Some defaultOptions"
  let ?P = "Some [OPT_MAXREDIRS \<mapsto> VInt 3, OPT_TIMEOUT \<mapsto> VInt 7]"
  let ?T = "Some [OPT_MAXREDIRS \<mapsto> VInt 1]"
  have t: "entries ?T OPT_MAXREDIRS = Some (VInt 1)" "entries ?T OPT_TIMEOUT = None"
    "entries ?T OPT_FOLLOWLOCATION = None" "entries ?T OPT_PROXY = None"
    by (simp_all add: entries_def OPT_defs)
  have p: "entries ?P OPT_TIMEOUT = Some (VInt 7)" "entries ?P OPT_FOLLOWLOCATION = None"
    "entries ?P OPT_PROXY = None"
    by (simp_all add: entries_def OPT_defs)
  have d: "entries ?D OPT_FOLLOWLOCATION = Some (VBool True)" "entries ?D OPT_PROXY = None"
    by (simp_all add: entries_def defaultOptions_def OPT_defs)
  show ?thesis
    using C2_mergeOptions_precedence [where T = ?T and P = ?P and D = ?D
        and k = OPT_MAXREDIRS and v = "VInt 1"]
      C2_mergeOptions_precedence [where T = ?T and P = ?P and D = ?D
        and k = OPT_TIMEOUT and v = "VInt 7"]
      C2_mergeOptions_precedence [where T = ?T and P = ?P and D = ?D
        and k = OPT_FOLLOWLOCATION and v = "VBool True"]
      C2_mergeOptions_precedence [where T = ?T and P = ?P and D = ?D
        and k = OPT_PROXY]
      t p d
    by simp
qed

lemma fst_after_reset: "fst (after_reset r x) = fst r"
  by (simp add: after_reset_def split: prod.splits exec.splits)

lemma snd_after_reset:
  "snd (after_reset r x) =
     (case snd r of Returns u \<Rightarrow> Returns x | Panics msg \<Rightarrow> Panics msg | Blocks \<Rightarrow> Blocks)"
  by (simp add: after_reset_def split: prod.splits exec.splits)

lemma reset_cong:
  "reset (this\<lparr>oneTimeHeaders := h\<rparr>) = reset this"
  by (simp add: reset_def Let_def split: option.splits mutex.splits)

lemma Do_transport_oneTimeHeaders:
  "Do_transport e (this\<lparr>oneTimeHeaders := h\<rparr>) options =
     map_sum id (\<lambda>(t, s). (t, s\<lparr>oneTimeHeaders := h\<rparr>)) (Do_transport e this options)"
  by (simp add: Do_transport_def split: sum.splits)

lemma Do_jar_oneTimeHeaders:
  "Do_jar e (this\<lparr>oneTimeHeaders := h\<rparr>) options =
     map_sum id (\<lambda>(t, s). (t, s\<lparr>oneTimeHeaders := h\<rparr>)) (Do_jar e this options)"
  by (simp add: Do_jar_def split: sum.splits)

text \<open>No step of \<^verbatim>\<open>Do\<close> reads the field \<^verbatim>\<open>Headers\<close>.\<close>

lemma reset_Headers:
  "reset (this\<lparr>Headers := h\<rparr>) = (fst (reset this)\<lparr>Headers := h\<rparr>, snd (reset this))"
  by (simp add: reset_def Let_def split: option.splits mutex.splits)

lemma Do_transport_Headers:
  "Do_transport e (this\<lparr>Headers := h\<rparr>) options =
     map_sum id (\<lambda>(t, s). (t, s\<lparr>Headers := h\<rparr>)) (Do_transport e this options)"
  by (simp add: Do_transport_def split: sum.splits)

lemma Do_jar_Headers:
  "Do_jar e (this\<lparr>Headers := h\<rparr>) options =
     map_sum id (\<lambda>(t, s). (t, s\<lparr>Headers := h\<rparr>)) (Do_jar e this options)"
  by (simp add: Do_jar_def split: sum.splits)

lemma Do_resolve_Headers: "Do_resolve (this\<lparr>Headers := h\<rparr>) headers = Do_resolve this headers"
  by (simp add: Do_resolve_def)

lemma Do_ignores_Headers:
  "snd (Do e (this\<lparr>Headers := h\<rparr>) method url' headers body)
     = snd (Do e this method url' headers body)"
  unfolding Do_def Let_def Do_resolve_Headers Do_transport_Headers
  by (auto simp: Do_jar_Headers reset_Headers snd_after_reset split: sum.splits)

text \<open>
  C3. The claim: the header map of a call to \<^verbatim>\<open>Do\<close> is the merge of the session's
  persistent headers and the staged one-time headers, the one-time value winning, as
  line 397 of \<^verbatim>\<open>Do\<close> does for the options. Line 398 does not: it merges the staged
  one-time headers with the \<^verbatim>\<open>headers\<close> argument of the call, and the argument is the
  later map of \<^verbatim>\<open>mergeHeaders\<close>, so for every key the header map of the request holds
  the argument's value when the argument has the key and the staged value otherwise. The
  call goes as the call with that merged map as its argument and nothing staged, and its
  outcome is the same whatever \<^verbatim>\<open>this.Headers\<close> is: \<^verbatim>\<open>Do\<close> never reads the persistent
  headers. They reach a request only where the caller passes them as the argument, which
  \<^verbatim>\<open>Post\<close> does and \<^verbatim>\<open>Get\<close> and \<^verbatim>\<open>PostMultipart\<close> do not, and there they win over the
  staged headers.
\<close>

theorem C3_Do_headers_argument_wins:
  "r_headers (Do_resolve this headers) k =
     (case entries headers k of Some v \<Rightarrow> Some v | None \<Rightarrow> entries (oneTimeHeaders this) k) \<and>
   Do e this method url' headers body =
     Do e (this\<lparr>oneTimeHeaders := None\<rparr>) method url'
       (Some (r_headers (Do_resolve this headers))) body \<and>
   snd (Do e (this\<lparr>Headers := h\<rparr>) method url' headers body)
     = snd (Do e this method url' headers body)"
proof (intro conjI)
  show "r_headers (Do_resolve this headers) k =
     (case entries headers k of Some v \<Rightarrow> Some v | None \<Rightarrow> entries (oneTimeHeaders this) k)"
    by (simp add: Do_resolve_def mergeHeaders2 map_add_def)
next
  have r: "Do_resolve (this\<lparr>oneTimeHeaders := None\<rparr>) (Some (r_headers (Do_resolve this headers)))
      = Do_resolve this headers"
    by (simp add: Do_resolve_def mergeHeaders2 entries_def)
  show "Do e this method url' headers body =
     Do e (this\<lparr>oneTimeHeaders := None\<rparr>) method url'
       (Some (r_headers (Do_resolve this headers))) body"
    unfolding Do_def r Let_def Do_transport_oneTimeHeaders
    by (auto simp: reset_cong Do_jar_oneTimeHeaders split: sum.splits)
next
  show "snd (Do e (this\<lparr>Headers := h\<rparr>) method url' headers body)
     = snd (Do e this method url' headers body)"
    by (rule Do_ignores_Headers)
qed

text \<open>The run: the persistent map of the session holds \<open>X-Env\<close>. \<^verbatim>\<open>Get\<close> passes no
  headers, and the request goes out without \<open>X-Env\<close>. \<^verbatim>\<open>Post\<close> passes the persistent
  map, and with \<open>X-Env\<close> staged for one call the request still carries the persistent
  value.\<close>

theorem C3_Do_headers_argument_wins_witness:
  "Headers test_session = Some 0 \<and>
   (test_store ! 0) ''X-Env'' = Some ''persistent'' \<and>
   (case snd (Get test_env test_session ''http://x/y'' []) of
      Returns (Some resp, None) \<Rightarrow> Some (Header (Request resp) ''X-Env'')
    | _ \<Rightarrow> None) = Some None \<and>
   oneTimeHeaders (WithHeader ''X-Env'' ''one-time'' test_session)
     = Some [''X-Env'' \<mapsto> ''one-time''] \<and>
   r_headers (Do_resolve (WithHeader ''X-Env'' ''one-time'' test_session)
      (Some (test_store ! 0))) ''X-Env'' = Some ''persistent'' \<and>
   r_headers (Do_resolve (WithHeader ''X-Env'' ''one-time'' test_session)
      (Some [''Accept'' \<mapsto> ''text/html''])) ''X-Env'' = Some ''one-time'' \<and>
   (case snd (snd (Post test_env test_store (WithHeader ''X-Env'' ''one-time'' test_session)
        ''http://x/y'' [(''b'', ''2'')])) of
      Returns (Some resp, None) \<Rightarrow> Header (Request resp) ''X-Env''
    | _ \<Rightarrow> None) = Some ''persistent''"
proof -
  have run: "Headers test_session = Some 0 \<and>
   (test_store ! 0) ''X-Env'' = Some ''persistent'' \<and>
   (case snd (Get test_env test_session ''http://x/y'' []) of
      Returns (Some resp, None) \<Rightarrow> Some (Header (Request resp) ''X-Env'')
    | _ \<Rightarrow> None) = Some None \<and>
   oneTimeHeaders (WithHeader ''X-Env'' ''one-time'' test_session)
     = Some [''X-Env'' \<mapsto> ''one-time''] \<and>
   (case snd (snd (Post test_env test_store (WithHeader ''X-Env'' ''one-time'' test_session)
        ''http://x/y'' [(''b'', ''2'')])) of
      Returns (Some resp, None) \<Rightarrow> Header (Request resp) ''X-Env''
    | _ \<Rightarrow> None) = Some ''persistent''"
    by (simp add: Get_def addParams_def Post_def Do_def Let_def Do_resolve_def mergeHeaders2
        mergeOptions_def entries_def test_store_def test_session_def WithHeader_def
        Do_transport_def Do_jar_def prepareJar_def reset_def after_reset_def Do_send_def
        prepareRedirect_def prepareRequest_def Header_Set_def test_env_def paramsToString_def
        map_add_def defaultOptions_lookups)
  have merged: "r_headers (Do_resolve (WithHeader ''X-Env'' ''one-time'' test_session)
      (Some (test_store ! 0))) ''X-Env'' = Some ''persistent'' \<and>
   r_headers (Do_resolve (WithHeader ''X-Env'' ''one-time'' test_session)
      (Some [''Accept'' \<mapsto> ''text/html''])) ''X-Env'' = Some ''one-time''"
    using C3_Do_headers_argument_wins
        [of "WithHeader ''X-Env'' ''one-time'' test_session" "Some (test_store ! 0)" "''X-Env''"]
      C3_Do_headers_argument_wins
        [of "WithHeader ''X-Env'' ''one-time'' test_session"
          "Some [''Accept'' \<mapsto> ''text/html'']" "''X-Env''"]
    by (simp add: entries_def WithHeader_def test_store_def)
  from run merged show ?thesis by blast
qed

section \<open>The transport builder\<close>

text \<open>Where the product does not leave the range of \<^verbatim>\<open>int\<close>, the conversion of seconds
  is the multiplication by 1000 of the integers.\<close>

lemma seconds_to_milliseconds_exact:
  fixes n :: goint
  assumes "- (2 ^ 63) \<le> sint n * 1000" and "sint n * 1000 < 2 ^ 63"
  shows "sint (n * 1000) = sint n * 1000"
proof -
  have "sint (n * 1000) = signed_take_bit 63 (sint n * sint (1000 :: goint))"
    by (simp add: sint_word_ariths)
  also have "\<dots> = signed_take_bit 63 (sint n * 1000)"
    by simp
  also have "\<dots> = sint n * 1000"
    using assms by (simp add: signed_take_bit_int_eq_self)
  finally show ?thesis .
qed

lemma prepareTransport_InrD:
  assumes "prepareTransport e options = Inr tr"
  shows "\<exists>c t p. prepareTransport_connectTimeoutMS options = Inr c \<and>
           prepareTransport_timeoutMS options = Inr t \<and>
           prepareTransport_proxy e options = Inr p \<and>
           tr = \<lparr>Dial_connectTimeoutMS =
                   (if 0 < sint t \<and> (sint t < sint c \<or> c = 0) then t else c),
                 Dial_timeoutMS = t, Proxy = p\<rparr>"
  using assms by (auto simp: prepareTransport_def Let_def split: sum.splits)

lemma connectTimeoutMS_cases:
  assumes "prepareTransport_connectTimeoutMS options = Inr c"
  shows "(\<forall>n. options OPT_CONNECTTIMEOUT_MS = Some (VInt n) \<longrightarrow> c = n) \<and>
         (\<forall>n. options OPT_CONNECTTIMEOUT_MS = None \<and> options OPT_CONNECTTIMEOUT = Some (VInt n)
            \<longrightarrow> c = n * 1000) \<and>
         (options OPT_CONNECTTIMEOUT_MS = None \<and> options OPT_CONNECTTIMEOUT = None \<longrightarrow> c = 0)"
  using assms
  by (auto simp: prepareTransport_connectTimeoutMS_def split: option.splits val.splits)

lemma timeoutMS_cases:
  assumes "prepareTransport_timeoutMS options = Inr t"
  shows "(\<forall>n. options OPT_TIMEOUT_MS = Some (VInt n) \<longrightarrow> t = n) \<and>
         (\<forall>n. options OPT_TIMEOUT_MS = None \<and> options OPT_TIMEOUT = Some (VInt n)
            \<longrightarrow> t = n * 1000) \<and>
         (options OPT_TIMEOUT_MS = None \<and> options OPT_TIMEOUT = None \<longrightarrow> t = 0)"
  using assms
  by (auto simp: prepareTransport_timeoutMS_def split: option.splits val.splits)

text \<open>
  C4. Whenever the builder returns a transport, the connect timeout \<open>c\<close> and the overall
  timeout \<open>t\<close> it resolved are the millisecond option when that one is present, else the
  second option times 1000, else 0; the deadline of the transport is \<open>t\<close>; and when
  \<open>t > 0\<close> and \<open>c\<close> is 0 or greater than \<open>t\<close>, the connect timeout the transport
  dials with is \<open>t\<close> (otherwise it is \<open>c\<close>). With connect = 10000 ms and overall = 2000
  ms the transport dials with a timeout of 2000 ms.
\<close>

theorem C4_connect_timeout_clamped:
  "(prepareTransport e options = Inr tr \<longrightarrow>
     (\<exists>c t. prepareTransport_connectTimeoutMS options = Inr c \<and>
        prepareTransport_timeoutMS options = Inr t \<and>
        (\<forall>n. options OPT_CONNECTTIMEOUT_MS = Some (VInt n) \<longrightarrow> c = n) \<and>
        (\<forall>n. options OPT_CONNECTTIMEOUT_MS = None \<and> options OPT_CONNECTTIMEOUT = Some (VInt n)
           \<longrightarrow> c = n * 1000) \<and>
        (options OPT_CONNECTTIMEOUT_MS = None \<and> options OPT_CONNECTTIMEOUT = None \<longrightarrow> c = 0) \<and>
        (\<forall>n. options OPT_TIMEOUT_MS = Some (VInt n) \<longrightarrow> t = n) \<and>
        (\<forall>n. options OPT_TIMEOUT_MS = None \<and> options OPT_TIMEOUT = Some (VInt n)
           \<longrightarrow> t = n * 1000) \<and>
        (options OPT_TIMEOUT_MS = None \<and> options OPT_TIMEOUT = None \<longrightarrow> t = 0) \<and>
        Dial_timeoutMS tr = t \<and>
        (0 < sint t \<and> (c = 0 \<or> sint t < sint c) \<longrightarrow> Dial_connectTimeoutMS tr = t) \<and>
        (\<not> (0 < sint t \<and> (c = 0 \<or> sint t < sint c)) \<longrightarrow> Dial_connectTimeoutMS tr = c))) \<and>
   map_sum id Dial_timeout
     (prepareTransport e [OPT_CONNECTTIMEOUT_MS \<mapsto> VInt 10000, OPT_TIMEOUT_MS \<mapsto> VInt 2000])
     = Inr (Some 2000)"
proof (intro conjI impI)
  assume "prepareTransport e options = Inr tr"
  then obtain c t p where c: "prepareTransport_connectTimeoutMS options = Inr c"
    and t: "prepareTransport_timeoutMS options = Inr t"
    and tr: "tr = \<lparr>Dial_connectTimeoutMS =
                   (if 0 < sint t \<and> (sint t < sint c \<or> c = 0) then t else c),
                 Dial_timeoutMS = t, Proxy = p\<rparr>"
    using prepareTransport_InrD by blast
  show "\<exists>c t. prepareTransport_connectTimeoutMS options = Inr c \<and>
        prepareTransport_timeoutMS options = Inr t \<and>
        (\<forall>n. options OPT_CONNECTTIMEOUT_MS = Some (VInt n) \<longrightarrow> c = n) \<and>
        (\<forall>n. options OPT_CONNECTTIMEOUT_MS = None \<and> options OPT_CONNECTTIMEOUT = Some (VInt n)
           \<longrightarrow> c = n * 1000) \<and>
        (options OPT_CONNECTTIMEOUT_MS = None \<and> options OPT_CONNECTTIMEOUT = None \<longrightarrow> c = 0) \<and>
        (\<forall>n. options OPT_TIMEOUT_MS = Some (VInt n) \<longrightarrow> t = n) \<and>
        (\<forall>n. options OPT_TIMEOUT_MS = None \<and> options OPT_TIMEOUT = Some (VInt n)
           \<longrightarrow> t = n * 1000) \<and>
        (options OPT_TIMEOUT_MS = None \<and> options OPT_TIMEOUT = None \<longrightarrow> t = 0) \<and>
        Dial_timeoutMS tr = t \<and>
        (0 < sint t \<and> (c = 0 \<or> sint t < sint c) \<longrightarrow> Dial_connectTimeoutMS tr = t) \<and>
        (\<not> (0 < sint t \<and> (c = 0 \<or> sint t < sint c)) \<longrightarrow> Dial_connectTimeoutMS tr = c)"
  proof (rule exI [of _ c], rule exI [of _ t], intro conjI)
    show "Dial_timeoutMS tr = t"
      by (simp add: tr)
    show "0 < sint t \<and> (c = 0 \<or> sint t < sint c) \<longrightarrow> Dial_connectTimeoutMS tr = t"
      by (auto simp: tr)
    show "\<not> (0 < sint t \<and> (c = 0 \<or> sint t < sint c)) \<longrightarrow> Dial_connectTimeoutMS tr = c"
      by (auto simp: tr)
  qed (use c t connectTimeoutMS_cases [OF c] timeoutMS_cases [OF t] in blast)+
next
  show "map_sum id Dial_timeout
     (prepareTransport e [OPT_CONNECTTIMEOUT_MS \<mapsto> VInt 10000, OPT_TIMEOUT_MS \<mapsto> VInt 2000])
     = Inr (Some 2000)"
    by (simp add: prepareTransport_def prepareTransport_connectTimeoutMS_def
        prepareTransport_timeoutMS_def prepareTransport_proxy_def Dial_timeout_def OPT_defs)
qed

theorem C4_connect_timeout_clamped_witness:
  "prepareTransport test_env [OPT_CONNECTTIMEOUT \<mapsto> VInt 10, OPT_TIMEOUT \<mapsto> VInt 2]
     = Inr \<lparr>Dial_connectTimeoutMS = 2000, Dial_timeoutMS = 2000, Proxy = None\<rparr> \<and>
   prepareTransport_connectTimeoutMS [OPT_CONNECTTIMEOUT \<mapsto> VInt 10, OPT_TIMEOUT \<mapsto> VInt 2]
     = Inr 10000 \<and>
   prepareTransport_timeoutMS [OPT_CONNECTTIMEOUT \<mapsto> VInt 10, OPT_TIMEOUT \<mapsto> VInt 2]
     = Inr 2000 \<and>
   Dial_connectTimeoutMS \<lparr>Dial_connectTimeoutMS = 2000, Dial_timeoutMS = 2000, Proxy = None\<rparr>
     = (2000 :: goint)"
proof -
  let ?options = "[OPT_CONNECTTIMEOUT \<mapsto> VInt 10, OPT_TIMEOUT \<mapsto> VInt 2]"
  let ?tr = "\<lparr>Dial_connectTimeoutMS = 2000, Dial_timeoutMS = 2000, Proxy = None\<rparr>"
  have run: "prepareTransport test_env ?options = Inr ?tr"
    by (simp add: prepareTransport_def prepareTransport_connectTimeoutMS_def
        prepareTransport_timeoutMS_def prepareTransport_proxy_def OPT_defs)
  have c: "prepareTransport_connectTimeoutMS ?options = Inr 10000"
    by (simp add: prepareTransport_connectTimeoutMS_def OPT_defs)
  have t: "prepareTransport_timeoutMS ?options = Inr 2000"
    by (simp add: prepareTransport_timeoutMS_def OPT_defs)
  from C4_connect_timeout_clamped [of test_env ?options ?tr] run c t
  have "Dial_connectTimeoutMS ?tr = (2000 :: goint)"
    by auto
  with run c t show ?thesis by simp
qed

section \<open>The redirect policy\<close>

lemma prepareRedirect_synthesized:
  assumes "options OPT_REDIRECT_POLICY = None"
    and "options OPT_FOLLOWLOCATION = None \<and> \<not> follow \<or> options OPT_FOLLOWLOCATION = Some (VBool follow)"
    and "options OPT_MAXREDIRS = None \<and> maxredirs = 0 \<or> options OPT_MAXREDIRS = Some (VInt maxredirs)"
  shows "prepareRedirect options =
     Inr (\<lambda>req via.
        if \<not> follow \<or> sint maxredirs \<le> 0
        then Some (Errorf ''redirect not allowed'' [])
        else if sint maxredirs \<le> int (length via)
        then Some (Errorf ''stopped after %d redirects'' [int (length via)])
        else None)"
  using assms by (auto simp: prepareRedirect_def)

lemma prepareRedirect_InrD:
  assumes "options OPT_REDIRECT_POLICY = None" and "prepareRedirect options = Inr redirect"
  shows "\<exists>follow maxredirs.
     (options OPT_FOLLOWLOCATION = None \<and> \<not> follow \<or> options OPT_FOLLOWLOCATION = Some (VBool follow)) \<and>
     (options OPT_MAXREDIRS = None \<and> maxredirs = 0 \<or> options OPT_MAXREDIRS = Some (VInt maxredirs))"
proof -
  have f: "options OPT_FOLLOWLOCATION = None \<or> (\<exists>b. options OPT_FOLLOWLOCATION = Some (VBool b))"
    using assms by (auto simp: prepareRedirect_def split: option.splits val.splits)
  have m: "options OPT_MAXREDIRS = None \<or> (\<exists>n. options OPT_MAXREDIRS = Some (VInt n))"
    using assms by (auto simp: prepareRedirect_def split: option.splits val.splits sum.splits)
  from f m show ?thesis by blast
qed

text \<open>
  C5. With no custom redirect policy among the options, the predicate the builder
  returns refuses every redirect when follow-redirects is false (or absent) or
  max-redirects is at most 0 (or absent); otherwise it refuses exactly when the chain of
  prior requests is at least max-redirects long. The builder does return a predicate
  whenever the two options, where present, are a bool and an int. With follow = true and
  max = 3 a chain of length 3 is refused and a chain of length 2 is allowed.
\<close>

theorem C5_synthesized_redirect_policy:
  "(options OPT_REDIRECT_POLICY = None \<and> prepareRedirect options = Inr redirect \<longrightarrow>
     (\<exists>follow maxredirs.
        (options OPT_FOLLOWLOCATION = None \<and> \<not> follow \<or>
         options OPT_FOLLOWLOCATION = Some (VBool follow)) \<and>
        (options OPT_MAXREDIRS = None \<and> maxredirs = 0 \<or>
         options OPT_MAXREDIRS = Some (VInt maxredirs)) \<and>
        (\<forall>req via.
           (\<not> follow \<or> sint maxredirs \<le> 0 \<longrightarrow>
              redirect req via = Some (Errorf ''redirect not allowed'' [])) \<and>
           (follow \<and> 0 < sint maxredirs \<longrightarrow>
              (redirect req via \<noteq> None \<longleftrightarrow> sint maxredirs \<le> int (length via)))))) \<and>
   (options OPT_REDIRECT_POLICY = None \<and>
    (options OPT_FOLLOWLOCATION = None \<or> (\<exists>b. options OPT_FOLLOWLOCATION = Some (VBool b))) \<and>
    (options OPT_MAXREDIRS = None \<or> (\<exists>n. options OPT_MAXREDIRS = Some (VInt n)))
      \<longrightarrow> (\<exists>redirect'. prepareRedirect options = Inr redirect')) \<and>
   (\<exists>redirect'.
      prepareRedirect [OPT_FOLLOWLOCATION \<mapsto> VBool True, OPT_MAXREDIRS \<mapsto> VInt 3] = Inr redirect' \<and>
      (\<forall>req via. length via = 3 \<longrightarrow> redirect' req via \<noteq> None) \<and>
      (\<forall>req via. length via = 2 \<longrightarrow> redirect' req via = None))"
proof (intro conjI impI)
  assume a: "options OPT_REDIRECT_POLICY = None \<and> prepareRedirect options = Inr redirect"
  then obtain follow maxredirs where
    f: "options OPT_FOLLOWLOCATION = None \<and> \<not> follow \<or>
        options OPT_FOLLOWLOCATION = Some (VBool follow)"
    and m: "options OPT_MAXREDIRS = None \<and> maxredirs = 0 \<or>
        options OPT_MAXREDIRS = Some (VInt maxredirs)"
    using prepareRedirect_InrD by blast
  have r: "redirect = (\<lambda>req via.
        if \<not> follow \<or> sint maxredirs \<le> 0
        then Some (Errorf ''redirect not allowed'' [])
        else if sint maxredirs \<le> int (length via)
        then Some (Errorf ''stopped after %d redirects'' [int (length via)])
        else None)"
    using prepareRedirect_synthesized [OF _ f m] a by simp
  have p: "\<forall>req via.
           (\<not> follow \<or> sint maxredirs \<le> 0 \<longrightarrow>
              redirect req via = Some (Errorf ''redirect not allowed'' [])) \<and>
           (follow \<and> 0 < sint maxredirs \<longrightarrow>
              (redirect req via \<noteq> None \<longleftrightarrow> sint maxredirs \<le> int (length via)))"
    by (simp add: r)
  from f m p show "\<exists>follow maxredirs.
        (options OPT_FOLLOWLOCATION = None \<and> \<not> follow \<or>
         options OPT_FOLLOWLOCATION = Some (VBool follow)) \<and>
        (options OPT_MAXREDIRS = None \<and> maxredirs = 0 \<or>
         options OPT_MAXREDIRS = Some (VInt maxredirs)) \<and>
        (\<forall>req via.
           (\<not> follow \<or> sint maxredirs \<le> 0 \<longrightarrow>
              redirect req via = Some (Errorf ''redirect not allowed'' [])) \<and>
           (follow \<and> 0 < sint maxredirs \<longrightarrow>
              (redirect req via \<noteq> None \<longleftrightarrow> sint maxredirs \<le> int (length via))))"
    by blast
next
  assume a: "options OPT_REDIRECT_POLICY = None \<and>
    (options OPT_FOLLOWLOCATION = None \<or> (\<exists>b. options OPT_FOLLOWLOCATION = Some (VBool b))) \<and>
    (options OPT_MAXREDIRS = None \<or> (\<exists>n. options OPT_MAXREDIRS = Some (VInt n)))"
  then obtain follow maxredirs where
    f: "options OPT_FOLLOWLOCATION = None \<and> \<not> follow \<or>
        options OPT_FOLLOWLOCATION = Some (VBool follow)"
    and m: "options OPT_MAXREDIRS = None \<and> maxredirs = 0 \<or>
        options OPT_MAXREDIRS = Some (VInt maxredirs)"
    by blast
  from a prepareRedirect_synthesized [OF _ f m]
  show "\<exists>redirect'. prepareRedirect options = Inr redirect'"
    by blast
next
  let ?options = "[OPT_FOLLOWLOCATION \<mapsto> VBool True, OPT_MAXREDIRS \<mapsto> VInt 3]"
  have "prepareRedirect ?options =
     Inr (\<lambda>req via.
        if \<not> True \<or> sint (3 :: goint) \<le> 0
        then Some (Errorf ''redirect not allowed'' [])
        else if sint (3 :: goint) \<le> int (length via)
        then Some (Errorf ''stopped after %d redirects'' [int (length via)])
        else None)"
    by (rule prepareRedirect_synthesized) (simp_all add: OPT_defs)
  then show "\<exists>redirect'. prepareRedirect ?options = Inr redirect' \<and>
      (\<forall>req via. length via = 3 \<longrightarrow> redirect' req via \<noteq> None) \<and>
      (\<forall>req via. length via = 2 \<longrightarrow> redirect' req via = None)"
    by simp
qed

theorem C5_synthesized_redirect_policy_witness:
  "\<exists>redirect. prepareRedirect defaultOptions = Inr redirect \<and>
     redirect test_request [] = None \<and>
     redirect test_request (replicate 9 test_request) = None \<and>
     redirect test_request (replicate 10 test_request) \<noteq> None"
proof -
  have p: "defaultOptions OPT_REDIRECT_POLICY = None"
    and f: "defaultOptions OPT_FOLLOWLOCATION = Some (VBool True)"
    and m: "defaultOptions OPT_MAXREDIRS = Some (VInt 10)"
    by (simp_all add: defaultOptions_def OPT_defs)
  have "\<exists>redirect'. prepareRedirect defaultOptions = Inr redirect'"
    by (rule C5_synthesized_redirect_policy [THEN conjunct2, THEN conjunct1, rule_format])
      (auto simp: p f m)
  then obtain redirect where r: "prepareRedirect defaultOptions = Inr redirect" ..
  have "\<exists>follow maxredirs.
        (defaultOptions OPT_FOLLOWLOCATION = None \<and> \<not> follow \<or>
         defaultOptions OPT_FOLLOWLOCATION = Some (VBool follow)) \<and>
        (defaultOptions OPT_MAXREDIRS = None \<and> maxredirs = 0 \<or>
         defaultOptions OPT_MAXREDIRS = Some (VInt maxredirs)) \<and>
        (\<forall>req via.
           (\<not> follow \<or> sint maxredirs \<le> 0 \<longrightarrow>
              redirect req via = Some (Errorf ''redirect not allowed'' [])) \<and>
           (follow \<and> 0 < sint maxredirs \<longrightarrow>
              (redirect req via \<noteq> None \<longleftrightarrow> sint maxredirs \<le> int (length via))))"
    by (rule C5_synthesized_redirect_policy [THEN conjunct1, rule_format]) (simp add: p r)
  then obtain follow maxredirs where
    f': "defaultOptions OPT_FOLLOWLOCATION = None \<and> \<not> follow \<or>
         defaultOptions OPT_FOLLOWLOCATION = Some (VBool follow)"
    and m': "defaultOptions OPT_MAXREDIRS = None \<and> maxredirs = 0 \<or>
         defaultOptions OPT_MAXREDIRS = Some (VInt maxredirs)"
    and q: "\<forall>req via. (\<not> follow \<or> sint maxredirs \<le> 0 \<longrightarrow>
              redirect req via = Some (Errorf ''redirect not allowed'' [])) \<and>
           (follow \<and> 0 < sint maxredirs \<longrightarrow>
              (redirect req via \<noteq> None \<longleftrightarrow> sint maxredirs \<le> int (length via)))"
    by (elim exE conjE)
  from f f' have follow: "follow" by simp
  from m m' have maxredirs: "maxredirs = 10" by simp
  have "redirect test_request [] = None"
    using q [rule_format, of test_request "[]"] follow maxredirs by simp
  moreover have "redirect test_request (replicate 9 test_request) = None"
    using q [rule_format, of test_request "replicate 9 test_request"] follow maxredirs by simp
  moreover have "redirect test_request (replicate 10 test_request) \<noteq> None"
    using q [rule_format, of test_request "replicate 10 test_request"] follow maxredirs by simp
  ultimately show ?thesis using r by blast
qed

section \<open>Get\<close>







section \<open>Post\<close>

lemma checkParamFile_nonempty_keys:
  assumes "\<forall>(k, v)\<in>set params. k \<noteq> []"
  shows "checkParamFile params = Returns (\<exists>(k, v)\<in>set params. prefix ''@'' k)"
  using assms
proof (induction params)
  case Nil
  then show ?case by simp
next
  case (Cons p params)
  obtain k v where p: "p = (k, v)" by (cases p)
  with Cons.prems obtain c cs where k: "k = c # cs" by (cases k) auto
  from Cons have IH: "checkParamFile params = Returns (\<exists>(k, v)\<in>set params. prefix ''@'' k)"
    by simp
  show ?case
    by (simp add: p k IH)
qed

lemma checkParamFile_empty_key_first:
  "checkParamFile (([], v) # params) = Panics ''index out of range''"
  by simp

lemma PostMultipart_files_nonempty_keys:
  assumes "\<forall>(k, v)\<in>set params. k \<noteq> []"
  shows "\<exists>r. PostMultipart_files e writer params = Returns r"
  using assms
proof (induction params arbitrary: writer)
  case Nil
  then show ?case by simp
next
  case (Cons p params)
  obtain k v where p: "p = (k, v)" by (cases p)
  with Cons.prems obtain c cs where k: "k = c # cs" by (cases k) auto
  from Cons have IH: "\<And>w. \<exists>r. PostMultipart_files e w params = Returns r"
    by simp
  show ?case
    using IH by (simp add: p k split: sum.splits)
qed

lemma Post_urlencoded:
  assumes "checkParamFile params = Returns False"
    and "case Headers this of None \<Rightarrow> True | Some a \<Rightarrow> a < length st"
  shows "Post e st this url' params =
     ((case Headers this of
         None \<Rightarrow> st @ [[''Content-Type'' \<mapsto> ''application/x-www-form-urlencoded'']]
       | Some a \<Rightarrow> st[a := (st ! a)(''Content-Type'' \<mapsto> ''application/x-www-form-urlencoded'')]),
      Do e this ''POST'' url'
        (Some ((case Headers this of None \<Rightarrow> Map.empty | Some a \<Rightarrow> st ! a)
                 (''Content-Type'' \<mapsto> ''application/x-www-form-urlencoded'')))
        (Some (paramsToString e params)))"
  using assms
  by (cases "Headers this") (simp_all add: Post_def Let_def split: prod.splits)

text \<open>When every key of the parameter map is non-empty (and the persistent header map of the
  session, if any, is in the store): \<^verbatim>\<open>checkParamFile\<close> returns whether some key starts
  with \<open>@\<close>; when one does, \<^verbatim>\<open>Post\<close> is \<^verbatim>\<open>PostMultipart\<close>; when none does, \<^verbatim>\<open>Post\<close>
  calls \<^verbatim>\<open>Do\<close> with the method \<open>POST\<close>, the encoded parameters as the body and a header
  map that holds \<open>Content-Type: application/x-www-form-urlencoded\<close>, as the merged
  header map of that call does.\<close>

lemma Post_routing_nonempty_keys:
  assumes "\<forall>(k, v)\<in>set params. k \<noteq> []"
    and "case Headers this of None \<Rightarrow> True | Some a \<Rightarrow> a < length st"
  shows "checkParamFile params = Returns (\<exists>(k, v)\<in>set params. prefix ''@'' k) \<and>
    ((\<exists>(k, v)\<in>set params. prefix ''@'' k) \<longrightarrow>
       Post e st this url' params = PostMultipart e st this url' params) \<and>
    (\<not> (\<exists>(k, v)\<in>set params. prefix ''@'' k) \<longrightarrow>
       (\<exists>st' headers.
          Post e st this url' params =
            (st', Do e this ''POST'' url' (Some headers) (Some (paramsToString e params))) \<and>
          headers ''Content-Type'' = Some ''application/x-www-form-urlencoded'' \<and>
          r_headers (Do_resolve this (Some headers)) ''Content-Type''
            = Some ''application/x-www-form-urlencoded''))"
proof (intro conjI impI)
  show c: "checkParamFile params = Returns (\<exists>(k, v)\<in>set params. prefix ''@'' k)"
    by (rule checkParamFile_nonempty_keys [OF assms(1)])
  {
    assume "\<exists>(k, v)\<in>set params. prefix ''@'' k"
    with c have "checkParamFile params = Returns True" by simp
    then show "Post e st this url' params = PostMultipart e st this url' params"
      by (simp add: Post_def)
  }
  {
    assume "\<not> (\<exists>(k, v)\<in>set params. prefix ''@'' k)"
    with c have f: "checkParamFile params = Returns False" by simp
    let ?headers = "(case Headers this of None \<Rightarrow> Map.empty | Some a \<Rightarrow> st ! a)
                 (''Content-Type'' \<mapsto> ''application/x-www-form-urlencoded'')"
    have "r_headers (Do_resolve this (Some ?headers)) ''Content-Type''
            = Some ''application/x-www-form-urlencoded''"
      by (simp add: Do_resolve_def mergeHeaders_def entries_def)
    moreover have "?headers ''Content-Type'' = Some ''application/x-www-form-urlencoded''"
      by simp
    ultimately show "\<exists>st' headers.
          Post e st this url' params =
            (st', Do e this ''POST'' url' (Some headers) (Some (paramsToString e params))) \<and>
          headers ''Content-Type'' = Some ''application/x-www-form-urlencoded'' \<and>
          r_headers (Do_resolve this (Some headers)) ''Content-Type''
            = Some ''application/x-www-form-urlencoded''"
      using Post_urlencoded [OF f assms(2)] by blast
  }
qed

lemma Post_routing_run:
  "checkParamFile [(''@file'', ''/tmp/a.txt''), (''b'', ''2'')] = Returns True \<and>
   Post test_env test_store test_session ''http://x/y'' [(''@file'', ''/tmp/a.txt''), (''b'', ''2'')]
     = PostMultipart test_env test_store test_session ''http://x/y''
         [(''@file'', ''/tmp/a.txt''), (''b'', ''2'')] \<and>
   checkParamFile [(''b'', ''2'')] = Returns False \<and>
   (\<exists>st' headers.
      Post test_env test_store test_session ''http://x/y'' [(''b'', ''2'')] =
        (st', Do test_env test_session ''POST'' ''http://x/y'' (Some headers) (Some ''b=2'')) \<and>
      headers ''Content-Type'' = Some ''application/x-www-form-urlencoded'') \<and>
   (case snd (snd (Post test_env test_store test_session ''http://x/y'' [(''b'', ''2'')])) of
      Returns (Some resp, None) \<Rightarrow>
        Some (Method (Request resp), Body (Request resp),
              Header (Request resp) ''Content-Type'')
    | _ \<Rightarrow> None)
     = Some (''POST'', Some ''b=2'', Some ''application/x-www-form-urlencoded'')"
proof -
  have wf: "case Headers test_session of None \<Rightarrow> True | Some a \<Rightarrow> a < length test_store"
    by (simp add: test_session_def test_store_def)
  have k1: "\<forall>(k, v)\<in>set [(''@file'', ''/tmp/a.txt''), (''b'', ''2'')]. k \<noteq> []"
    and k2: "\<forall>(k, v)\<in>set [(''b'', ''2'')]. k \<noteq> []"
    by simp_all
  have body: "paramsToString test_env [(''b'', ''2'')] = ''b=2''"
    by (simp add: paramsToString_def test_env_def)
  have sent: "(case snd (snd (Post test_env test_store test_session ''http://x/y''
        [(''b'', ''2'')])) of
      Returns (Some resp, None) \<Rightarrow>
        Some (Method (Request resp), Body (Request resp),
              Header (Request resp) ''Content-Type'')
    | _ \<Rightarrow> None)
     = Some (''POST'', Some ''b=2'', Some ''application/x-www-form-urlencoded'')"
    by (simp add: Post_def Do_def Let_def Do_resolve_def mergeHeaders2 mergeOptions_def
        entries_def test_store_def test_session_def Do_transport_def Do_jar_def prepareJar_def
        reset_def after_reset_def Do_send_def prepareRedirect_def prepareRequest_def
        Header_Set_def test_env_def paramsToString_def map_add_def defaultOptions_lookups)
  show ?thesis
    using Post_routing_nonempty_keys [OF k1 wf, of test_env "''http://x/y''"]
      Post_routing_nonempty_keys [OF k2 wf, of test_env "''http://x/y''"] body sent
    by simp blast
qed

text \<open>The merged header map is not yet the header of the request: \<^verbatim>\<open>prepareRequest\<close>
  sets its entries one by one under their canonical keys, in the order of the iteration.
  With \<open>content-type\<close> staged for the call and visited last, the request of \<^verbatim>\<open>Post\<close>
  carries the staged content type and not the form's.\<close>

lemma Post_content_type_overridden:
  "(case snd (snd (Post test_canonical_env test_store
        (WithHeader ''content-type'' ''text/plain'' test_session) ''http://x/y''
        [(''b'', ''2'')])) of
      Returns (Some resp, None) \<Rightarrow> Header (Request resp) ''Content-Type''
    | _ \<Rightarrow> None) = Some ''text/plain''"
  by (simp add: Post_def Do_def Let_def Do_resolve_def mergeHeaders2 mergeOptions_def
      entries_def test_store_def test_session_def WithHeader_def Do_transport_def Do_jar_def
      prepareJar_def reset_def after_reset_def Do_send_def prepareRedirect_def
      prepareRequest_def Header_Set_def test_canonical_env_def test_env_def paramsToString_def
      map_add_def defaultOptions_lookups)

text \<open>
  C7. The claim: for every parameter map, \<^verbatim>\<open>Post\<close> goes to \<^verbatim>\<open>PostMultipart\<close> exactly when
  some key starts with \<open>@\<close>, and otherwise sends the encoded parameters with the form
  content type ("If any of the params key starts with "@", it is considered as a form
  file"). The code misses the empty key: \<^verbatim>\<open>checkParamFile\<close> reads the first byte of
  every key it visits with no check of the length, so on a parameter map whose iteration
  starts at the key \<open>""\<close> \<^verbatim>\<open>Post\<close> neither delegates nor sends the form. The call ends in
  an index out of range, the store and the session untouched. The map with the one key
  \<open>""\<close> is such a map, and no key of it starts with \<open>@\<close>.
\<close>

theorem C7_Post_empty_key_panics:
  "checkParamFile (([], v) # params) = Panics ''index out of range'' \<and>
   Post e st this url' (([], v) # params) = (st, this, Panics ''index out of range'')"
  by (simp add: Post_def)

theorem C7_Post_empty_key_panics_witness:
  "\<not> (\<exists>(k, v)\<in>set [([], ''x'')]. prefix ''@'' k) \<and>
   checkParamFile [([], ''x'')] = Panics ''index out of range'' \<and>
   Post test_env test_store test_session ''http://x/y'' [([], ''x'')]
     = (test_store, test_session, Panics ''index out of range'')"
  using C7_Post_empty_key_panics [of "''x''" "[]" test_env test_store test_session "''http://x/y''"]
  by simp

section \<open>Do and reset\<close>

lemma reset_clears:
  "oneTimeOptions (fst (reset this)) = None"
  "oneTimeHeaders (fst (reset this)) = None"
  "oneTimeCookies (fst (reset this)) = []"
  "reuseTransport (fst (reset this))"
  "reuseJar (fst (reset this))"
  by (simp_all add: reset_def Let_def split: option.splits mutex.splits)

lemma reset_lock:
  "lock (fst (reset this)) = (case lock this of None \<Rightarrow> None | Some m \<Rightarrow> Some Unlocked)"
  by (simp add: reset_def Let_def split: option.splits mutex.splits)

lemma reset_outcome:
  "snd (reset this) =
     (if lock this = Some Unlocked then Panics ''sync: unlock of unlocked mutex'' else Returns ())"
  by (simp add: reset_def Let_def split: option.splits mutex.splits)

lemma reset_keeps:
  "Headers (fst (reset this)) = Headers this"
  "Options (fst (reset this)) = Options this"
  "transport (fst (reset this)) = transport this"
  "jar (fst (reset this)) = jar this"
  by (simp_all add: reset_def Let_def split: option.splits mutex.splits)

lemma Do_transport_keeps:
  assumes "Do_transport e this options = Inr (t, this1)"
  shows "lock this1 = lock this \<and> Headers this1 = Headers this"
  using assms by (auto simp: Do_transport_def split: sum.splits if_splits)

lemma Do_jar_keeps:
  assumes "Do_jar e this options = Inr (j, this1)"
  shows "lock this1 = lock this \<and> Headers this1 = Headers this"
  using assms by (auto simp: Do_jar_def split: sum.splits if_splits)

text \<open>Every path of \<^verbatim>\<open>Do\<close> ends in \<^verbatim>\<open>reset\<close>, on a session whose mutex and persistent
  headers are those of the call.\<close>

lemma Do_ends_in_reset:
  "\<exists>this1 x. Do e this method url' headers body = after_reset (reset this1) x \<and>
     lock this1 = lock this \<and> Headers this1 = Headers this"
proof (cases "Do_transport e this (r_options (Do_resolve this headers))")
  case (Inl err)
  then have "Do e this method url' headers body = after_reset (reset this) (None, Some err)"
    by (simp add: Do_def Let_def)
  then show ?thesis by blast
next
  case (Inr p)
  obtain t this1 where p: "p = (t, this1)" by (cases p)
  from Inr p have k1: "lock this1 = lock this \<and> Headers this1 = Headers this"
    using Do_transport_keeps by blast
  show ?thesis
  proof (cases "Do_jar e this1 (r_options (Do_resolve this headers))")
    case (Inl err)
    with Inr p have "Do e this method url' headers body = after_reset (reset this1) (None, Some err)"
      by (simp add: Do_def Let_def)
    with k1 show ?thesis by blast
  next
    case jar: (Inr q)
    obtain j this2 where q: "q = (j, this2)" by (cases q)
    from jar q have k2: "lock this2 = lock this1 \<and> Headers this2 = Headers this1"
      using Do_jar_keeps by blast
    from Inr p jar q
    have "Do e this method url' headers body =
        after_reset (reset this2)
          (Do_send e (Do_resolve this headers) t j method url' body)"
      by (simp add: Do_def Let_def)
    with k1 k2 show ?thesis by metis
  qed
qed

lemma Do_error_returns:
  "(Do_transport e this (r_options (Do_resolve this headers)) = Inl err \<longrightarrow>
      Do e this method url' headers body = after_reset (reset this) (None, Some err)) \<and>
   (Do_transport e this (r_options (Do_resolve this headers)) = Inr (t, this1) \<and>
    Do_jar e this1 (r_options (Do_resolve this headers)) = Inl err \<longrightarrow>
      Do e this method url' headers body = after_reset (reset this1) (None, Some err)) \<and>
   (Do_transport e this (r_options (Do_resolve this headers)) = Inr (t, this1) \<and>
    Do_jar e this1 (r_options (Do_resolve this headers)) = Inr (j, this2) \<and>
    prepareRedirect (r_options (Do_resolve this headers)) = Inl err \<longrightarrow>
      Do e this method url' headers body = after_reset (reset this2) (None, Some err)) \<and>
   (Do_transport e this (r_options (Do_resolve this headers)) = Inr (t, this1) \<and>
    Do_jar e this1 (r_options (Do_resolve this headers)) = Inr (j, this2) \<and>
    prepareRedirect (r_options (Do_resolve this headers)) = Inr redirect \<and>
    prepareRequest e method url' (r_headers (Do_resolve this headers)) body
        (r_options (Do_resolve this headers)) = Inl err \<longrightarrow>
      Do e this method url' headers body = after_reset (reset this2) (None, Some err))"
  by (simp add: Do_def Let_def Do_send_def)

text \<open>Whatever the session, the collaborators and the arguments, the session \<^verbatim>\<open>Do\<close>
  leaves has no staged option, header or cookie, both reuse flags true, and a mutex that is
  not held; a mutex that was held is released. When the mutex is absent or held at the
  call, \<^verbatim>\<open>Do\<close> returns, and it returns the error of the transport builder, of the jar
  builder, of the redirect builder or of the request constructor when that one fails.
  After the call \<^verbatim>\<open>Begin\<close> returns at once.\<close>

lemma Do_always_resets:
  "oneTimeOptions (fst (Do e this method url' headers body)) = None \<and>
   oneTimeHeaders (fst (Do e this method url' headers body)) = None \<and>
   oneTimeCookies (fst (Do e this method url' headers body)) = [] \<and>
   reuseTransport (fst (Do e this method url' headers body)) \<and>
   reuseJar (fst (Do e this method url' headers body)) \<and>
   lock (fst (Do e this method url' headers body)) \<noteq> Some Locked \<and>
   (lock this = Some Locked \<longrightarrow> lock (fst (Do e this method url' headers body)) = Some Unlocked) \<and>
   (lock this \<noteq> Some Unlocked \<longrightarrow>
      (\<exists>res. snd (Do e this method url' headers body) = Returns res) \<and>
      (Do_transport e this (r_options (Do_resolve this headers)) = Inl err \<longrightarrow>
         snd (Do e this method url' headers body) = Returns (None, Some err)) \<and>
      (Do_transport e this (r_options (Do_resolve this headers)) = Inr (t, this1) \<and>
       Do_jar e this1 (r_options (Do_resolve this headers)) = Inl err \<longrightarrow>
         snd (Do e this method url' headers body) = Returns (None, Some err)) \<and>
      (Do_transport e this (r_options (Do_resolve this headers)) = Inr (t, this1) \<and>
       Do_jar e this1 (r_options (Do_resolve this headers)) = Inr (j, this2) \<and>
       prepareRedirect (r_options (Do_resolve this headers)) = Inl err \<longrightarrow>
         snd (Do e this method url' headers body) = Returns (None, Some err)) \<and>
      (Do_transport e this (r_options (Do_resolve this headers)) = Inr (t, this1) \<and>
       Do_jar e this1 (r_options (Do_resolve this headers)) = Inr (j, this2) \<and>
       prepareRedirect (r_options (Do_resolve this headers)) = Inr redirect \<and>
       prepareRequest e method url' (r_headers (Do_resolve this headers)) body
           (r_options (Do_resolve this headers)) = Inl err \<longrightarrow>
         snd (Do e this method url' headers body) = Returns (None, Some err))) \<and>
   (\<exists>this'. Begin (fst (Do e this method url' headers body)) = Returns this')"
proof -
  obtain this0 x where d: "Do e this method url' headers body = after_reset (reset this0) x"
    and l: "lock this0 = lock this"
    using Do_ends_in_reset by blast
  have f: "fst (Do e this method url' headers body) = fst (reset this0)"
    by (simp add: d fst_after_reset)
  have s: "snd (Do e this method url' headers body) =
     (if lock this = Some Unlocked then Panics ''sync: unlock of unlocked mutex'' else Returns x)"
    by (simp add: d snd_after_reset reset_outcome l)
  have k: "lock (fst (reset this0)) = (case lock this of None \<Rightarrow> None | Some m \<Rightarrow> Some Unlocked)"
    by (simp add: reset_lock l)
  have b: "\<exists>this'. Begin (fst (reset this0)) = Returns this'"
    by (simp add: Begin_def k split: option.splits)
  have state: "oneTimeOptions (fst (Do e this method url' headers body)) = None \<and>
     oneTimeHeaders (fst (Do e this method url' headers body)) = None \<and>
     oneTimeCookies (fst (Do e this method url' headers body)) = [] \<and>
     reuseTransport (fst (Do e this method url' headers body)) \<and>
     reuseJar (fst (Do e this method url' headers body)) \<and>
     lock (fst (Do e this method url' headers body)) \<noteq> Some Locked \<and>
     (lock this = Some Locked \<longrightarrow> lock (fst (Do e this method url' headers body)) = Some Unlocked)"
    unfolding f by (simp add: reset_clears k split: option.splits)
  have returns: "lock this \<noteq> Some Unlocked \<longrightarrow>
      (\<exists>res. snd (Do e this method url' headers body) = Returns res)"
    by (simp add: s)
  have e1: "lock this \<noteq> Some Unlocked \<longrightarrow>
      Do_transport e this (r_options (Do_resolve this headers)) = Inl err \<longrightarrow>
         snd (Do e this method url' headers body) = Returns (None, Some err)"
    using Do_error_returns [of e this headers err "method" url' body]
    by (simp add: snd_after_reset reset_outcome)
  have e2: "lock this \<noteq> Some Unlocked \<longrightarrow>
      Do_transport e this (r_options (Do_resolve this headers)) = Inr (t, this1) \<and>
       Do_jar e this1 (r_options (Do_resolve this headers)) = Inl err \<longrightarrow>
         snd (Do e this method url' headers body) = Returns (None, Some err)"
    using Do_error_returns [of e this headers err "method" url' body t this1]
      Do_transport_keeps [of e this "r_options (Do_resolve this headers)" t this1]
    by (auto simp: snd_after_reset reset_outcome)
  have e3: "lock this \<noteq> Some Unlocked \<longrightarrow>
      Do_transport e this (r_options (Do_resolve this headers)) = Inr (t, this1) \<and>
       Do_jar e this1 (r_options (Do_resolve this headers)) = Inr (j, this2) \<and>
       prepareRedirect (r_options (Do_resolve this headers)) = Inl err \<longrightarrow>
         snd (Do e this method url' headers body) = Returns (None, Some err)"
    using Do_error_returns [of e this headers err "method" url' body t this1 j this2]
      Do_transport_keeps [of e this "r_options (Do_resolve this headers)" t this1]
      Do_jar_keeps [of e this1 "r_options (Do_resolve this headers)" j this2]
    by (auto simp: snd_after_reset reset_outcome)
  have e4: "lock this \<noteq> Some Unlocked \<longrightarrow>
      Do_transport e this (r_options (Do_resolve this headers)) = Inr (t, this1) \<and>
       Do_jar e this1 (r_options (Do_resolve this headers)) = Inr (j, this2) \<and>
       prepareRedirect (r_options (Do_resolve this headers)) = Inr redirect \<and>
       prepareRequest e method url' (r_headers (Do_resolve this headers)) body
           (r_options (Do_resolve this headers)) = Inl err \<longrightarrow>
         snd (Do e this method url' headers body) = Returns (None, Some err)"
    using Do_error_returns [of e this headers err "method" url' body t this1 j this2 redirect]
      Do_transport_keeps [of e this "r_options (Do_resolve this headers)" t this1]
      Do_jar_keeps [of e this1 "r_options (Do_resolve this headers)" j this2]
    by (auto simp: snd_after_reset reset_outcome)
  from b have again: "\<exists>this'. Begin (fst (Do e this method url' headers body)) = Returns this'"
    by (simp add: f)
  from state returns e1 e2 e3 e4 again show ?thesis
    by blast
qed

lemma test_locked_session_eq:
  "test_locked_session =
     (snd (NewHttpClient [] None))
       \<lparr>oneTimeOptions := Some [OPT_TIMEOUT \<mapsto> VString ''soon''], lock := Some Locked\<rparr>"
  by (simp add: test_locked_session_def Begin_def NewHttpClient_def WithOption_def Let_def
      entries_def hasOption_transportOptions hasOption_jarOptions OPT_defs)

lemma test_locked_session_Do:
  "Do test_env test_locked_session ''GET'' ''http://x/y'' None None =
     ((snd (NewHttpClient [] None))\<lparr>lock := Some Unlocked\<rparr>,
      Returns (None, Some (Errorf ''OPT_TIMEOUT must be int'' [])))"
  by (simp add: test_locked_session_eq NewHttpClient_def Do_def Let_def Do_resolve_def
      mergeOptions_def entries_def Do_transport_def prepareTransport_def
      prepareTransport_connectTimeoutMS_def prepareTransport_timeoutMS_def map_add_def
      defaultOptions_def reset_def after_reset_def OPT_defs)

lemma Do_always_resets_run:
  "lock test_locked_session = Some Locked \<and>
   oneTimeOptions test_locked_session = Some [OPT_TIMEOUT \<mapsto> VString ''soon''] \<and>
   snd (Do test_env test_locked_session ''GET'' ''http://x/y'' None None)
     = Returns (None, Some (Errorf ''OPT_TIMEOUT must be int'' [])) \<and>
   oneTimeOptions (fst (Do test_env test_locked_session ''GET'' ''http://x/y'' None None)) = None \<and>
   lock (fst (Do test_env test_locked_session ''GET'' ''http://x/y'' None None)) = Some Unlocked \<and>
   (\<exists>this'. Begin (fst (Do test_env test_locked_session ''GET'' ''http://x/y'' None None))
      = Returns this')"
proof -
  have l: "lock test_locked_session = Some Locked"
    and o: "oneTimeOptions test_locked_session = Some [OPT_TIMEOUT \<mapsto> VString ''soon'']"
    by (simp_all add: test_locked_session_eq)
  show ?thesis
    using Do_always_resets [of test_env test_locked_session "''GET''" "''http://x/y''" None None]
      l o
    by (simp add: test_locked_session_Do)
qed

text \<open>
  C8. The claim: on every path of \<^verbatim>\<open>Do\<close>, the error returns included, the lock is
  released and the staged state is cleared before \<^verbatim>\<open>Do\<close> returns, so the session can
  serve a next, independent call. The code calls \<^verbatim>\<open>reset\<close> on every path ("release
  lock"), and \<^verbatim>\<open>reset\<close> unlocks whenever the session has a mutex, held or not. A
  session has a mutex that is not held after any call that began with \<^verbatim>\<open>Begin\<close>. A next
  call that does not begin with \<^verbatim>\<open>Begin\<close> then clears the staged state and unlocks an
  unlocked mutex, which ends the program: \<^verbatim>\<open>Do\<close> does not return, whatever its
  arguments.
\<close>

theorem C8_Do_on_unheld_mutex_panics:
  assumes "lock this = Some Unlocked"
  shows "snd (Do e this method url' headers body) = Panics ''sync: unlock of unlocked mutex'' \<and>
         oneTimeOptions (fst (Do e this method url' headers body)) = None \<and>
         oneTimeHeaders (fst (Do e this method url' headers body)) = None \<and>
         oneTimeCookies (fst (Do e this method url' headers body)) = []"
proof -
  obtain this1 x where d: "Do e this method url' headers body = after_reset (reset this1) x"
    and l: "lock this1 = lock this"
    using Do_ends_in_reset by blast
  show ?thesis
    by (simp add: d fst_after_reset snd_after_reset reset_outcome reset_clears l assms)
qed

text \<open>The run: \<^verbatim>\<open>Begin\<close> and a staged option on a new session, then a call that fails
  in the transport builder and releases the mutex. A next call that starts with
  \<^verbatim>\<open>Begin\<close> is served; a next call that does not ends in \<^verbatim>\<open>reset\<close>.\<close>

theorem C8_Do_on_unheld_mutex_panics_witness:
  "snd (Do test_env test_locked_session ''GET'' ''http://x/y'' None None)
     = Returns (None, Some (Errorf ''OPT_TIMEOUT must be int'' [])) \<and>
   lock (fst (Do test_env test_locked_session ''GET'' ''http://x/y'' None None)) = Some Unlocked \<and>
   (case Begin (fst (Do test_env test_locked_session ''GET'' ''http://x/y'' None None)) of
      Returns this' \<Rightarrow>
        (case snd (Do test_env this' ''GET'' ''http://x/y'' None None) of
           Returns (Some resp, None) \<Rightarrow> Some (StatusCode resp)
         | _ \<Rightarrow> None)
    | _ \<Rightarrow> None) = Some 200 \<and>
   snd (Do test_env (fst (Do test_env test_locked_session ''GET'' ''http://x/y'' None None))
          ''GET'' ''http://x/y'' None None)
     = Panics ''sync: unlock of unlocked mutex''"
proof -
  have "(case Begin ((snd (NewHttpClient [] None))\<lparr>lock := Some Unlocked\<rparr>) of
      Returns this' \<Rightarrow>
        (case snd (Do test_env this' ''GET'' ''http://x/y'' None None) of
           Returns (Some resp, None) \<Rightarrow> Some (StatusCode resp)
         | _ \<Rightarrow> None)
    | _ \<Rightarrow> None) = Some 200"
    by (simp add: Begin_def NewHttpClient_def Do_def Let_def Do_resolve_def mergeHeaders2
        mergeOptions_def entries_def Do_transport_def Do_jar_def prepareJar_def
        prepareTransport_def prepareTransport_connectTimeoutMS_def prepareTransport_timeoutMS_def
        prepareTransport_proxy_def reset_def after_reset_def Do_send_def prepareRedirect_def
        prepareRequest_def Header_Set_def test_env_def map_add_def defaultOptions_lookups)
  moreover have "snd (Do test_env ((snd (NewHttpClient [] None))\<lparr>lock := Some Unlocked\<rparr>)
          ''GET'' ''http://x/y'' None None)
     = Panics ''sync: unlock of unlocked mutex''"
    using C8_Do_on_unheld_mutex_panics
      [of "(snd (NewHttpClient [] None))\<lparr>lock := Some Unlocked\<rparr>" test_env "''GET''"
        "''http://x/y''" None None]
    by simp
  ultimately show ?thesis
    by (simp add: test_locked_session_Do)
qed

lemma Do_keeps_Headers: "Headers (fst (Do e this method url' headers body)) = Headers this"
proof -
  obtain this1 x where d: "Do e this method url' headers body = after_reset (reset this1) x"
    and h: "Headers this1 = Headers this"
    using Do_ends_in_reset by blast
  show ?thesis
    by (simp add: d fst_after_reset reset_keeps h)
qed

section \<open>The persistent headers under Post\<close>

text \<open>
  C9. The claim: \<^verbatim>\<open>Post\<close> on a session with a persistent header map and a parameter map
  with no key that starts with \<open>@\<close> writes the form content type into that map, and so
  changes the persistent headers. With the one key \<open>""\<close> no key starts with \<open>@\<close>, and
  the persistent map is left as it was: the call panics in \<^verbatim>\<open>checkParamFile\<close> before it
  reaches the assignment. And a persistent map that holds the form content type already
  is the same map after the call.
\<close>

theorem C9_empty_key_leaves_headers_counterexample:
  "Headers test_session = Some 0 \<and>
   \<not> (\<exists>(k, v)\<in>set [([], ''x'')]. prefix ''@'' k) \<and>
   fst (Post test_env test_store test_session ''http://x/y'' [([], ''x'')]) = test_store \<and>
   (test_store ! 0) ''Content-Type'' = None \<and>
   snd (snd (Post test_env test_store test_session ''http://x/y'' [([], ''x'')]))
     = Panics ''index out of range'' \<and>
   fst (Post test_env [[''Content-Type'' \<mapsto> ''application/x-www-form-urlencoded'']]
          test_session ''http://x/y'' [(''b'', ''2'')])
     = [[''Content-Type'' \<mapsto> ''application/x-www-form-urlencoded'']]"
  by (simp add: Post_def test_session_def test_store_def Let_def split: prod.splits)

text \<open>
  C9, as the code has it. \<^verbatim>\<open>Post\<close> on a session whose persistent header map is at
  address \<open>a\<close> of the store, with parameters none of whose keys is empty or starts with
  \<open>@\<close>, leaves a store that differs from the old one at \<open>a\<close> only, where the map now
  holds \<open>Content-Type: application/x-www-form-urlencoded\<close> besides its old entries; the
  session still points to \<open>a\<close>. This holds however \<^verbatim>\<open>Do\<close> ends. Unless the map held that
  very entry before, the persistent headers of the session have changed.
\<close>

theorem C9_Post_writes_persistent_headers:
  assumes "Headers this = Some a" and "a < length st"
    and "\<forall>(k, v)\<in>set params. k \<noteq> [] \<and> \<not> prefix ''@'' k"
  shows "fst (Post e st this url' params)
           = st[a := (st ! a)(''Content-Type'' \<mapsto> ''application/x-www-form-urlencoded'')] \<and>
         fst (Post e st this url' params) ! a
           = (st ! a)(''Content-Type'' \<mapsto> ''application/x-www-form-urlencoded'') \<and>
         Headers (fst (snd (Post e st this url' params))) = Some a \<and>
         ((st ! a) ''Content-Type'' \<noteq> Some ''application/x-www-form-urlencoded'' \<longrightarrow>
            fst (Post e st this url' params) ! a \<noteq> st ! a)"
proof -
  from assms(3) have keys: "\<forall>(k, v)\<in>set params. k \<noteq> []"
    and no_file: "\<not> (\<exists>(k, v)\<in>set params. prefix ''@'' k)"
    by auto
  have c: "checkParamFile params = Returns False"
    using checkParamFile_nonempty_keys [OF keys] no_file by simp
  have wf: "case Headers this of None \<Rightarrow> True | Some a \<Rightarrow> a < length st"
    by (simp add: assms(1,2))
  let ?st' = "st[a := (st ! a)(''Content-Type'' \<mapsto> ''application/x-www-form-urlencoded'')]"
  let ?h = "(st ! a)(''Content-Type'' \<mapsto> ''application/x-www-form-urlencoded'')"
  have p: "Post e st this url' params =
      (?st', Do e this ''POST'' url' (Some ?h) (Some (paramsToString e params)))"
    using Post_urlencoded [OF c wf, of e url'] by (simp add: assms(1))
  have 1: "fst (Post e st this url' params) = ?st'"
    by (simp add: p)
  have 2: "?st' ! a = ?h"
    using assms(2) by simp
  have 3: "Headers (fst (snd (Post e st this url' params))) = Some a"
    by (simp add: p Do_keeps_Headers assms(1))
  have 4: "(st ! a) ''Content-Type'' \<noteq> Some ''application/x-www-form-urlencoded'' \<longrightarrow> ?h \<noteq> st ! a"
    by (metis fun_upd_same)
  from 1 2 3 4 show ?thesis by simp
qed

theorem C9_Post_writes_persistent_headers_witness:
  "Headers test_session = Some 0 \<and>
   test_store ! 0 = [''X-Env'' \<mapsto> ''persistent''] \<and>
   fst (Post test_env test_store test_session ''http://x/y'' [(''b'', ''2'')]) ! 0
     = [''X-Env'' \<mapsto> ''persistent'',
        ''Content-Type'' \<mapsto> ''application/x-www-form-urlencoded''] \<and>
   Headers (fst (snd (Post test_env test_store test_session ''http://x/y'' [(''b'', ''2'')])))
     = Some 0"
proof -
  have h: "Headers test_session = Some 0" and a: "0 < length test_store"
    and s: "test_store ! 0 = [''X-Env'' \<mapsto> ''persistent'']"
    by (simp_all add: test_session_def test_store_def)
  have k: "\<forall>(k, v)\<in>set [(''b'', ''2'')]. k \<noteq> [] \<and> \<not> prefix ''@'' k"
    by simp
  show ?thesis
    using C9_Post_writes_persistent_headers [OF h a k, of test_env "''http://x/y''"] h s a
    by simp
qed

section \<open>The first byte of a parameter key\<close>

lemma empty_key_moved_first:
  assumes "[] \<in> fst ` set params"
  shows "\<exists>v rest. mset (([], v) # rest) = mset params"
proof -
  from assms obtain v where "([], v) \<in> set params" by force
  then have "mset (([], v) # remove1 ([], v) params) = mset params"
    by simp
  then show ?thesis by blast
qed

text \<open>
  C10. \<^verbatim>\<open>checkParamFile\<close> and the loop of \<^verbatim>\<open>PostMultipart\<close> read \<^verbatim>\<open>k[0]\<close> with no check
  of the length. When every key is non-empty both return, in any order of iteration.
  When the iteration starts at an empty key both end in an index out of range, and so do
  \<^verbatim>\<open>Post\<close> and \<^verbatim>\<open>PostMultipart\<close>, which return neither a response nor an error. A map
  that holds the empty key has such an order of iteration.
\<close>

theorem C10_first_byte_of_key_unguarded:
  "((\<forall>(k, v)\<in>set params. k \<noteq> []) \<longrightarrow>
      (\<exists>b. checkParamFile params = Returns b) \<and>
      (\<exists>r. PostMultipart_files e writer params = Returns r)) \<and>
   checkParamFile (([], v) # params) = Panics ''index out of range'' \<and>
   PostMultipart_files e writer (([], v) # params) = Panics ''index out of range'' \<and>
   snd (snd (Post e st this url' (([], v) # params))) = Panics ''index out of range'' \<and>
   snd (snd (PostMultipart e st this url' (([], v) # params))) = Panics ''index out of range'' \<and>
   ([] \<in> fst ` set params \<longrightarrow>
      (\<exists>params'. mset params' = mset params \<and>
         checkParamFile params' = Panics ''index out of range'' \<and>
         PostMultipart_files e writer params' = Panics ''index out of range'' \<and>
         snd (snd (Post e st this url' params')) = Panics ''index out of range'' \<and>
         snd (snd (PostMultipart e st this url' params')) = Panics ''index out of range''))"
proof (intro conjI impI)
  assume k: "\<forall>(k, v)\<in>set params. k \<noteq> []"
  show "\<exists>b. checkParamFile params = Returns b"
    using checkParamFile_nonempty_keys [OF k] by blast
  show "\<exists>r. PostMultipart_files e writer params = Returns r"
    by (rule PostMultipart_files_nonempty_keys [OF k])
next
  show "checkParamFile (([], v) # params) = Panics ''index out of range''"
    by simp
  show "PostMultipart_files e writer (([], v) # params) = Panics ''index out of range''"
    by simp
  show "snd (snd (Post e st this url' (([], v) # params))) = Panics ''index out of range''"
    by (simp add: Post_def)
  show "snd (snd (PostMultipart e st this url' (([], v) # params))) = Panics ''index out of range''"
    by (simp add: PostMultipart_def)
next
  assume "[] \<in> fst ` set params"
  then obtain v' rest where m: "mset (([], v') # rest) = mset params"
    using empty_key_moved_first by blast
  have "checkParamFile (([], v') # rest) = Panics ''index out of range''"
    and "PostMultipart_files e writer (([], v') # rest) = Panics ''index out of range''"
    and "snd (snd (Post e st this url' (([], v') # rest))) = Panics ''index out of range''"
    and "snd (snd (PostMultipart e st this url' (([], v') # rest))) = Panics ''index out of range''"
    by (simp_all add: Post_def PostMultipart_def)
  with m show "\<exists>params'. mset params' = mset params \<and>
         checkParamFile params' = Panics ''index out of range'' \<and>
         PostMultipart_files e writer params' = Panics ''index out of range'' \<and>
         snd (snd (Post e st this url' params')) = Panics ''index out of range'' \<and>
         snd (snd (PostMultipart e st this url' params')) = Panics ''index out of range''"
    by blast
qed

theorem C10_first_byte_of_key_unguarded_witness:
  "(\<exists>b. checkParamFile [(''@file'', ''/tmp/a.txt''), (''b'', ''2'')] = Returns b) \<and>
   (\<exists>r. PostMultipart_files test_env [] [(''@file'', ''/tmp/a.txt''), (''b'', ''2'')]
      = Returns r) \<and>
   snd (snd (Post test_env test_store test_session ''http://x/y'' [([], ''x''), (''b'', ''2'')]))
     = Panics ''index out of range'' \<and>
   snd (snd (PostMultipart test_env test_store test_session ''http://x/y''
       [([], ''x''), (''b'', ''2'')]))
     = Panics ''index out of range'' \<and>
   (\<exists>params'. mset params' = mset [(''b'', ''2''), ([], ''x'')] \<and>
      checkParamFile params' = Panics ''index out of range'')"
proof -
  have k: "\<forall>(k, v)\<in>set [(''@file'', ''/tmp/a.txt''), (''b'', ''2'')]. k \<noteq> []"
    by simp
  have m: "[] \<in> fst ` set [(''b'', ''2''), ([], ''x'')]"
    by simp
  from C10_first_byte_of_key_unguarded
    [of "[(''@file'', ''/tmp/a.txt''), (''b'', ''2'')]" test_env "[]"]
  have 1: "(\<exists>b. checkParamFile [(''@file'', ''/tmp/a.txt''), (''b'', ''2'')] = Returns b) \<and>
      (\<exists>r. PostMultipart_files test_env [] [(''@file'', ''/tmp/a.txt''), (''b'', ''2'')]
         = Returns r)"
    using k by blast
  from C10_first_byte_of_key_unguarded
    [of "[(''b'', ''2'')]" test_env "[]" "''x''" test_store test_session "''http://x/y''"]
  have 2: "snd (snd (Post test_env test_store test_session ''http://x/y''
         [([], ''x''), (''b'', ''2'')])) = Panics ''index out of range'' \<and>
      snd (snd (PostMultipart test_env test_store test_session ''http://x/y''
         [([], ''x''), (''b'', ''2'')])) = Panics ''index out of range''"
    by blast
  from C10_first_byte_of_key_unguarded
    [of "[(''b'', ''2''), ([], ''x'')]" test_env "[]" "''x''" test_store test_session "''http://x/y''"]
  have 3: "\<exists>params'. mset params' = mset [(''b'', ''2''), ([], ''x'')] \<and>
      checkParamFile params' = Panics ''index out of range''"
    using m by blast
  from 1 2 3 show ?thesis by blast
qed

end
